theory Spec2Isabelle
  imports Main
begin

section \<open>Values, exceptions and the backend contract\<close>

text \<open>
  An exception is its class together with the text \<open>str(e)\<close> gives for it.
  \<open>exn\<close> stands for the instances of Python's \<open>Exception\<close>, which is what every
  \<open>except Exception\<close> handler of the sources catches.
\<close>

datatype exn_kind =
    ValidationError
  | BackendError
  | EnvironmentError
  | NotImplementedError
  | AttributeError
  | IndexError
  | TypeError
  | RuntimeError
  | OtherError string

datatype exn = Exn (kind: exn_kind) (message: string)

text \<open>Argument and result values of remote methods; \<open>PNone\<close> is Python's \<open>None\<close>.\<close>

datatype pyval = PNone | PBool bool | PInt int | PStr string

text \<open>The keyword arguments of the two backend constructors called by \<open>api.py\<close>.\<close>

record local_args =
  la_image :: string
  la_container_name :: "string option"
  la_http_port :: int
  la_env_vars :: "(string \<times> string) list option"
  la_env_type_override :: "string option"
  la_force_recreate :: bool
  la_backend_kwargs :: "(string \<times> pyval) list"

record remote_args =
  ra_environment_id :: string
  ra_backend_kwargs :: "(string \<times> pyval) list"

text \<open>
  The state of the thread's event loop when \<open>load_env\<close> is called: idle (or absent, then
  a new one is made), running (the call comes from a coroutine or a callback), or closed.
\<close>

datatype loop_state = LoopIdle | LoopRunning | LoopClosed

text \<open>
  The collaborators of the orchestration layer, taken as parameters: the two backend
  constructors (which may raise), and the operations of \<open>AbstractBackend\<close> on a backend
  in state \<open>'b\<close>. \<open>cleanup\<close> and \<open>call_method\<close> return the backend's next state, also
  when they raise. \<open>pool_name_of\<close> and \<open>random_choice\<close> serve the instance pool.
  \<open>event_loop\<close> is the state of the event loop, and \<open>multiple_values_message\<close> the text
  of the interpreter's \<open>TypeError\<close> for a keyword given twice in a call, by the name of the
  function and of the keyword.
\<close>

record 'b backends =
  LocalBackend :: "local_args \<Rightarrow> exn + 'b"
  RemoteBackend :: "remote_args \<Rightarrow> exn + 'b"
  name_of :: "'b \<Rightarrow> string"
  is_ready_of :: "'b \<Rightarrow> bool"
  cleanup_of :: "'b \<Rightarrow> exn option \<times> 'b"
  call_method_of ::
    "'b \<Rightarrow> string \<Rightarrow> pyval list \<Rightarrow> pyval \<Rightarrow> (string \<times> pyval) list \<Rightarrow> (exn + pyval) \<times> 'b"
  pool_name_of :: "nat \<Rightarrow> string"
  random_choice :: "nat \<Rightarrow> nat"
  event_loop :: loop_state
  multiple_values_message :: "string \<Rightarrow> string \<Rightarrow> string"

text \<open>
  Every call that reaches a collaborator is appended to a trace, so that "no backend was
  contacted" and "cleanup was invoked" are statements about the trace. A backend is named
  in an event by its \<open>name\<close>.
\<close>

datatype event =
    EvLocalBackend local_args
  | EvRemoteBackend remote_args
  | EvIsReady string
  | EvCleanup string
  | EvCallMethod string string "pyval list" pyval "(string \<times> pyval) list"
  | EvRegister string

type_synonym trace = "event list"

definition backend_is_ready :: "'b backends \<Rightarrow> 'b \<Rightarrow> trace \<Rightarrow> bool \<times> trace" where
  "backend_is_ready E b tr = (is_ready_of E b, tr @ [EvIsReady (name_of E b)])"

definition backend_cleanup :: "'b backends \<Rightarrow> 'b \<Rightarrow> trace \<Rightarrow> exn option \<times> 'b \<times> trace" where
  "backend_cleanup E b tr =
     (case cleanup_of E b of (r, b') \<Rightarrow> (r, b', tr @ [EvCleanup (name_of E b)]))"

definition backend_call_method ::
  "'b backends \<Rightarrow> 'b \<Rightarrow> string \<Rightarrow> pyval list \<Rightarrow> pyval \<Rightarrow> (string \<times> pyval) list \<Rightarrow> trace
     \<Rightarrow> (exn + pyval) \<times> 'b \<times> trace" where
  "backend_call_method E b name args timeout kwargs tr =
     (case call_method_of E b name args timeout kwargs of
        (r, b') \<Rightarrow> (r, b', tr @ [EvCallMethod (name_of E b) name args timeout kwargs]))"

section \<open>Instance records and the instance pool\<close>

text \<open>
  \<open>InstanceInfo\<close> as \<open>_deploy_instance\<close> fills it. The wall-clock field \<open>last_check\<close>
  (a float from \<open>time.time()\<close>) is left out.
\<close>

record 'b instance_info =
  host :: string
  port :: int
  backend :: 'b
  healthy :: bool

text \<open>
  Modelled from the spec: the data of \<open>InstancePool\<close> (\<open>core/instance_pool.py\<close> is not
  among the sources), as section 3 of the specification gives it, and the statistics of
  section 4.2. \<open>p_ready\<close> is the state section 3 gives every backend, the pool included:
  "a readiness flag set once construction/setup completes and cleared once cleanup
  completes".
\<close>

record 'b instance_pool =
  p_name :: string
  instances :: "'b instance_info list"
  strategy :: string
  cursor :: nat
  p_ready :: bool

record pool_stats =
  total_instances :: nat
  healthy_instances :: nat
  stats_strategy :: string

text \<open>
  Modelled from the spec: the constructor of \<open>InstancePool\<close>. The pool holds the
  instances and the strategy it is given, with the cursor at its start and the readiness
  flag set; the pool's name is not specified and is taken from \<open>pool_name_of\<close>.
\<close>

definition InstancePool :: "'b backends \<Rightarrow> 'b instance_info list \<Rightarrow> string \<Rightarrow> 'b instance_pool" where
  "InstancePool E insts load_balance_strategy =
     \<lparr>p_name = pool_name_of E (length insts), instances = insts,
      strategy = load_balance_strategy, cursor = 0, p_ready = True\<rparr>"

text \<open>
  Modelled from the spec: step 1 of the selection algorithm of \<open>InstancePool\<close>. The
  positions of the instances with \<open>healthy == true\<close> whose backend reports
  \<open>is_ready() == true\<close>.
\<close>

definition selectable :: "'b backends \<Rightarrow> 'b instance_pool \<Rightarrow> nat list" where
  "selectable E p =
     filter (\<lambda>i. healthy (instances p ! i) \<and> is_ready_of E (backend (instances p ! i)))
       [0..<length (instances p)]"

text \<open>
  Modelled from the spec: the readiness probes that the filter of step 1 issues, one for
  every healthy instance.
\<close>

definition probes :: "'b backends \<Rightarrow> 'b instance_pool \<Rightarrow> trace" where
  "probes E p = map (\<lambda>inst. EvIsReady (name_of E (backend inst))) (filter healthy (instances p))"

text \<open>
  Modelled from the spec: \<open>InstancePool.is_ready\<close>, the readiness flag of section 3: set
  by the constructor, cleared by \<open>cleanup\<close>. No member is contacted.
\<close>

definition pool_is_ready :: "'b backends \<Rightarrow> 'b instance_pool \<Rightarrow> trace \<Rightarrow> bool \<times> trace" where
  "pool_is_ready E p tr = (p_ready p, tr)"

text \<open>
  Modelled from the spec: \<open>InstancePool.call_method\<close>, steps 1 to 4 of the selection
  algorithm, then the call on the selected member. With no selectable instance the call
  fails with \<open>BackendError\<close>. Round robin advances the cursor modulo the size of the
  selection and takes that index; random takes \<open>random_choice\<close> of the size. The member's
  result, or its exception, is the pool's.
\<close>

definition pool_call_method ::
  "'b backends \<Rightarrow> 'b instance_pool \<Rightarrow> string \<Rightarrow> pyval list \<Rightarrow> pyval \<Rightarrow> (string \<times> pyval) list
     \<Rightarrow> trace \<Rightarrow> (exn + pyval) \<times> 'b instance_pool \<times> trace" where
  "pool_call_method E p name args timeout kwargs tr =
     (let cands = selectable E p; tr1 = tr @ probes E p in
      if cands = [] then (Inl (Exn BackendError ''no healthy instances''), p, tr1)
      else
        let c = (if strategy p = ''round_robin'' then (cursor p + 1) mod length cands
                 else random_choice E (length cands) mod length cands);
            p1 = (if strategy p = ''round_robin'' then p\<lparr>cursor := c\<rparr> else p);
            i = cands ! c;
            inst = instances p1 ! i
        in case backend_call_method E (backend inst) name args timeout kwargs tr1 of
             (r, b', tr2) \<Rightarrow> (r, p1\<lparr>instances := (instances p1)[i := inst\<lparr>backend := b'\<rparr>]\<rparr>, tr2))"

text \<open>
  \<open>cleanup()\<close> on the backend of every instance of a list, in order, as
  \<open>asyncio.gather(*tasks, return_exceptions=True)\<close> runs them: an exception is collected
  and the others still run.
\<close>

fun cleanup_members ::
  "'b backends \<Rightarrow> 'b instance_info list \<Rightarrow> trace \<Rightarrow> exn list \<times> 'b instance_info list \<times> trace" where
  "cleanup_members E [] tr = ([], [], tr)"
| "cleanup_members E (inst # rest) tr =
     (case backend_cleanup E (backend inst) tr of
        (r, b', tr1) \<Rightarrow>
          (case cleanup_members E rest tr1 of
             (errs, rest', tr2) \<Rightarrow>
               ((case r of None \<Rightarrow> [] | Some e \<Rightarrow> [e]) @ errs, inst\<lparr>backend := b'\<rparr> # rest', tr2)))"

text \<open>
  Modelled from the spec: \<open>InstancePool.cleanup\<close>. Cleanup is applied to every member;
  a member's failure is collected and logged, and does not stop the others. The
  readiness flag is cleared once the cleanup is complete.
\<close>

definition pool_cleanup ::
  "'b backends \<Rightarrow> 'b instance_pool \<Rightarrow> trace \<Rightarrow> exn option \<times> 'b instance_pool \<times> trace" where
  "pool_cleanup E p tr =
     (case cleanup_members E (instances p) tr of
        (errs, insts', tr') \<Rightarrow> (None, p\<lparr>instances := insts', p_ready := False\<rparr>, tr'))"

text \<open>
  Modelled from the spec: \<open>InstancePool.get_stats\<close>, the read-only snapshot
  \<open>{total_instances, healthy_instances, strategy}\<close>.
\<close>

definition pool_get_stats :: "'b instance_pool \<Rightarrow> pool_stats" where
  "pool_get_stats p =
     \<lparr>total_instances = length (instances p),
      healthy_instances = length (filter healthy (instances p)),
      stats_strategy = strategy p\<rparr>"

section \<open>The environment wrapper (\<open>core/wrapper.py\<close>)\<close>

text \<open>What a wrapper holds in \<open>_backend\<close>: a single backend or an instance pool.\<close>

datatype 'b backend_obj = Backend 'b | Pool "'b instance_pool"

fun obj_name :: "'b backends \<Rightarrow> 'b backend_obj \<Rightarrow> string" where
  "obj_name E (Backend b) = name_of E b"
| "obj_name E (Pool p) = p_name p"

fun obj_is_ready :: "'b backends \<Rightarrow> 'b backend_obj \<Rightarrow> trace \<Rightarrow> bool \<times> trace" where
  "obj_is_ready E (Backend b) tr = backend_is_ready E b tr"
| "obj_is_ready E (Pool p) tr = pool_is_ready E p tr"

fun obj_cleanup ::
  "'b backends \<Rightarrow> 'b backend_obj \<Rightarrow> trace \<Rightarrow> exn option \<times> 'b backend_obj \<times> trace" where
  "obj_cleanup E (Backend b) tr =
     (case backend_cleanup E b tr of (r, b', tr') \<Rightarrow> (r, Backend b', tr'))"
| "obj_cleanup E (Pool p) tr =
     (case pool_cleanup E p tr of (r, p', tr') \<Rightarrow> (r, Pool p', tr'))"

fun obj_call_method ::
  "'b backends \<Rightarrow> 'b backend_obj \<Rightarrow> string \<Rightarrow> pyval list \<Rightarrow> pyval \<Rightarrow> (string \<times> pyval) list
     \<Rightarrow> trace \<Rightarrow> (exn + pyval) \<times> 'b backend_obj \<times> trace" where
  "obj_call_method E (Backend b) name args timeout kwargs tr =
     (case backend_call_method E b name args timeout kwargs tr of
        (r, b', tr') \<Rightarrow> (r, Backend b', tr'))"
| "obj_call_method E (Pool p) name args timeout kwargs tr =
     (case pool_call_method E p name args timeout kwargs tr of
        (r, p', tr') \<Rightarrow> (r, Pool p', tr'))"

text \<open>The fields \<open>_backend\<close>, \<open>_is_pool\<close>, \<open>name\<close> and \<open>_is_ready\<close>.\<close>

record 'b wrapper =
  w_backend :: "'b backend_obj"
  w_is_pool :: bool
  w_name :: string
  w_is_ready :: bool

definition quoted :: "string \<Rightarrow> string" where
  "quoted s = [CHR 0x27] @ s @ [CHR 0x27]"

text \<open>\<open>EnvironmentWrapper.__init__\<close>: the stored flag is the backend's answer at that moment.\<close>

definition EnvironmentWrapper :: "'b backends \<Rightarrow> 'b backend_obj \<Rightarrow> trace \<Rightarrow> 'b wrapper \<times> trace" where
  "EnvironmentWrapper E bk tr =
     (case obj_is_ready E bk tr of
        (r, tr') \<Rightarrow>
          (\<lparr>w_backend = bk,
            w_is_pool = (case bk of Pool p \<Rightarrow> True | Backend b \<Rightarrow> False),
            w_name = obj_name E bk,
            w_is_ready = r\<rparr>, tr'))"

text \<open>
  \<open>EnvironmentWrapper.cleanup\<close>: the flag is cleared after the backend's cleanup has
  returned; an exception of the backend is logged and swallowed.
\<close>

definition cleanup :: "'b backends \<Rightarrow> 'b wrapper \<Rightarrow> trace \<Rightarrow> (exn + unit) \<times> 'b wrapper \<times> trace" where
  "cleanup E w tr =
     (case obj_cleanup E (w_backend w) tr of
        (None, bk', tr') \<Rightarrow> (Inr (), w\<lparr>w_backend := bk', w_is_ready := False\<rparr>, tr')
      | (Some e, bk', tr') \<Rightarrow> (Inr (), w\<lparr>w_backend := bk'\<rparr>, tr'))"

text \<open>\<open>EnvironmentWrapper.is_ready\<close>: \<open>self._is_ready and self._backend.is_ready()\<close>.\<close>

definition is_ready :: "'b backends \<Rightarrow> 'b wrapper \<Rightarrow> trace \<Rightarrow> bool \<times> trace" where
  "is_ready E w tr = (if w_is_ready w then obj_is_ready E (w_backend w) tr else (False, tr))"

definition startswith_underscore :: "string \<Rightarrow> bool" where
  "startswith_underscore name = (case name of [] \<Rightarrow> False | c # cs \<Rightarrow> c = CHR ''_'')"

text \<open>
  \<open>EnvironmentWrapper.__getattr__\<close>, which Python calls for a name that is no attribute
  of the wrapper. \<open>Inr name\<close> is the closure \<open>method_caller\<close> bound to \<open>name\<close>.
\<close>

definition getattr :: "'b wrapper \<Rightarrow> string \<Rightarrow> exn + string" where
  "getattr w name =
     (if startswith_underscore name then
        Inl (Exn AttributeError
          (quoted ''EnvironmentWrapper'' @ '' has no attribute '' @ quoted name))
      else if \<not> w_is_ready w then
        Inl (Exn EnvironmentError (''Environment '' @ quoted (w_name w) @ '' not ready.''))
      else Inr name)"

text \<open>
  The keywords of a call \<open>method_caller(*args, **kws)\<close>: the keyword-only parameter
  \<open>timeout\<close> (default \<open>None\<close>) takes the entry of that name, \<open>**kwargs\<close> the others.
\<close>

definition timeout_of :: "(string \<times> pyval) list \<Rightarrow> pyval" where
  "timeout_of kws = (case map_of kws ''timeout'' of None \<Rightarrow> PNone | Some v \<Rightarrow> v)"

definition business_kwargs :: "(string \<times> pyval) list \<Rightarrow> (string \<times> pyval) list" where
  "business_kwargs kws = filter (\<lambda>kv. fst kv \<noteq> ''timeout'') kws"

text \<open>The closure \<open>method_caller\<close> of \<open>__getattr__\<close>, called on the wrapper as it is then.\<close>

definition method_caller ::
  "'b backends \<Rightarrow> 'b wrapper \<Rightarrow> string \<Rightarrow> pyval list \<Rightarrow> (string \<times> pyval) list \<Rightarrow> trace
     \<Rightarrow> (exn + pyval) \<times> 'b wrapper \<times> trace" where
  "method_caller E w name args kws tr =
     (case obj_call_method E (w_backend w) name args (timeout_of kws) (business_kwargs kws) tr of
        (Inr result, bk', tr') \<Rightarrow> (Inr result, w\<lparr>w_backend := bk'\<rparr>, tr')
      | (Inl e, bk', tr') \<Rightarrow>
          (Inl (Exn EnvironmentError
             (''Method '' @ quoted name @ '' failed on environment '' @ quoted (w_name w)
                @ '': '' @ message e)),
           w\<lparr>w_backend := bk'\<rparr>, tr'))"

text \<open>A forward request \<open>env.name(*args, **kws)\<close>: the attribute lookup, then the call.\<close>

definition forward ::
  "'b backends \<Rightarrow> 'b wrapper \<Rightarrow> string \<Rightarrow> pyval list \<Rightarrow> (string \<times> pyval) list \<Rightarrow> trace
     \<Rightarrow> (exn + pyval) \<times> 'b wrapper \<times> trace" where
  "forward E w name args kws tr =
     (case getattr w name of
        Inl e \<Rightarrow> (Inl e, w, tr)
      | Inr m \<Rightarrow> method_caller E w m args kws tr)"

text \<open>
  \<open>EnvironmentWrapper.get_stats\<close>. A single backend has no \<open>get_stats\<close>: were the flag
  \<open>_is_pool\<close> set on one, the attribute access would raise.
\<close>

definition get_stats :: "'b wrapper \<Rightarrow> trace \<Rightarrow> (exn + pool_stats option) \<times> trace" where
  "get_stats w tr =
     (if w_is_pool w then
        (case w_backend w of
           Pool p \<Rightarrow> (Inr (Some (pool_get_stats p)), tr)
         | Backend b \<Rightarrow>
             (Inl (Exn AttributeError (''object has no attribute '' @ quoted ''get_stats'')), tr))
      else (Inr None, tr))"

section \<open>Loading environments (\<open>api.py\<close>)\<close>

text \<open>The parameters of \<open>load_env\<close>; \<open>image\<close> is the field \<open>image_name\<close>.\<close>

record load_args =
  image_name :: string
  mode :: string
  replicas :: int
  hosts :: "string list option"
  load_balance :: string
  base_port :: int
  container_name :: "string option"
  env_vars :: "(string \<times> string) list option"
  env_type :: "string option"
  force_recreate :: bool
  backend_kwargs :: "(string \<times> pyval) list"

text \<open>\<open>str\<close> of an integer, as the f-strings format it.\<close>

fun str_nat :: "nat \<Rightarrow> string" where
  "str_nat n =
     (if n < 10 then [''0123456789'' ! n]
      else str_nat (n div 10) @ [''0123456789'' ! (n mod 10)])"

declare str_nat.simps [simp del]

definition str_int :: "int \<Rightarrow> string" where
  "str_int i = (if i < 0 then CHR ''-'' # str_nat (nat (- i)) else str_nat (nat i))"

text \<open>
  The host list as the code reads it: \<open>hosts\<close> is only ever tested for truth, and
  \<open>None\<close> and the empty list are both false.
\<close>

definition host_list :: "load_args \<Rightarrow> string list" where
  "host_list a = (case hosts a of None \<Rightarrow> [] | Some hs \<Rightarrow> hs)"

text \<open>
  A call \<open>f(k1=..., ..., **kwargs)\<close> raises \<open>TypeError\<close>, before \<open>f\<close> is entered, when
  \<open>kwargs\<close> holds one of the keywords \<open>k1, ...\<close> of the call; the message names the first
  such key of \<open>kwargs\<close>.
\<close>

definition duplicate_keyword :: "string list \<Rightarrow> (string \<times> pyval) list \<Rightarrow> string option" where
  "duplicate_keyword explicit kwargs = find (\<lambda>k. k \<in> set explicit) (map fst kwargs)"

definition keyword_error ::
  "'b backends \<Rightarrow> string \<Rightarrow> string list \<Rightarrow> (string \<times> pyval) list \<Rightarrow> exn option" where
  "keyword_error E f explicit kwargs =
     (case duplicate_keyword explicit kwargs of
        None \<Rightarrow> None
      | Some k \<Rightarrow> Some (Exn TypeError (multiple_values_message E f k)))"

text \<open>The keywords that the calls of \<open>api.py\<close> write out before \<open>**backend_kwargs\<close>.\<close>

definition LocalBackend_keywords :: "string list" where
  "LocalBackend_keywords =
     [''image'', ''container_name'', ''http_port'', ''env_vars'', ''env_type_override'',
      ''force_recreate'']"

definition RemoteBackend_keywords :: "string list" where
  "RemoteBackend_keywords = [''environment_id'']"

definition load_single_instance_keywords :: "string list" where
  "load_single_instance_keywords =
     [''image'', ''mode'', ''host'', ''port'', ''container_name'', ''env_vars'', ''env_type'',
      ''force_recreate'']"

definition load_multi_instance_keywords :: "string list" where
  "load_multi_instance_keywords =
     [''image'', ''mode'', ''replicas'', ''hosts'', ''load_balance'', ''base_port'',
      ''container_name'', ''env_vars'', ''env_type'', ''force_recreate'']"

definition deploy_instance_keywords :: "string list" where
  "deploy_instance_keywords =
     [''image'', ''mode'', ''host'', ''port'', ''instance_id'', ''container_name'', ''env_vars'',
      ''env_type'', ''force_recreate'']"

definition local_backend_args :: "load_args \<Rightarrow> string option \<Rightarrow> int \<Rightarrow> local_args" where
  "local_backend_args a cname p =
     \<lparr>la_image = image_name a, la_container_name = cname, la_http_port = p,
      la_env_vars = env_vars a, la_env_type_override = env_type a,
      la_force_recreate = force_recreate a, la_backend_kwargs = backend_kwargs a\<rparr>"

text \<open>
  The end of \<open>_load_single_instance\<close>: the wrapper around the backend, registered under
  the backend's name.
\<close>

definition wrap_single :: "'b backends \<Rightarrow> 'b \<Rightarrow> trace \<Rightarrow> (exn + 'b wrapper) \<times> trace" where
  "wrap_single E b tr =
     (case EnvironmentWrapper E (Backend b) tr of
        (w, tr') \<Rightarrow> (Inr w, tr' @ [EvRegister (name_of E b)]))"

text \<open>\<open>_load_single_instance\<close>, with \<open>host\<close> and \<open>port\<close> as \<open>load_env\<close> passes them.\<close>

definition load_single_instance ::
  "'b backends \<Rightarrow> load_args \<Rightarrow> string \<Rightarrow> int \<Rightarrow> trace \<Rightarrow> (exn + 'b wrapper) \<times> trace" where
  "load_single_instance E a h p tr =
     (if h \<noteq> ''localhost'' then
        (Inl (Exn NotImplementedError
           (''Remote SSH deployment not yet implemented. Use hosts=['' @ quoted ''localhost''
              @ ''] or hosts=None for local deployment.'')), tr)
      else if mode a = ''local'' then
        (case keyword_error E ''LocalBackend'' LocalBackend_keywords (backend_kwargs a) of
           Some e \<Rightarrow> (Inl e, tr)
         | None \<Rightarrow>
             (let args = local_backend_args a (container_name a) p;
                  tr1 = tr @ [EvLocalBackend args]
              in case LocalBackend E args of
                   Inl e \<Rightarrow> (Inl e, tr1)
                 | Inr b \<Rightarrow> wrap_single E b tr1))
      else if mode a = ''remote'' then
        (case keyword_error E ''RemoteBackend'' RemoteBackend_keywords (backend_kwargs a) of
           Some e \<Rightarrow> (Inl e, tr)
         | None \<Rightarrow>
             (let args = \<lparr>ra_environment_id = image_name a,
                          ra_backend_kwargs = backend_kwargs a\<rparr>;
                  tr1 = tr @ [EvRemoteBackend args]
              in case RemoteBackend E args of
                   Inl e \<Rightarrow> (Inl e, tr1)
                 | Inr b \<Rightarrow> wrap_single E b tr1))
      else
        (Inl (Exn ValidationError
           (''Invalid mode: '' @ mode a @ ''. Must be '' @ quoted ''local'' @ '' or ''
              @ quoted ''remote'')), tr))"

text \<open>
  \<open>_deploy_instance\<close>. The coroutine has no suspension point, so one deployment runs
  from start to end before the next one starts.
\<close>

definition deploy_instance ::
  "'b backends \<Rightarrow> load_args \<Rightarrow> string \<Rightarrow> int \<Rightarrow> nat \<Rightarrow> trace \<Rightarrow> (exn + 'b instance_info) \<times> trace" where
  "deploy_instance E a h p instance_id tr =
     (if h \<noteq> ''localhost'' then
        (Inl (Exn NotImplementedError ''Remote SSH deployment not yet implemented''), tr)
      else if mode a = ''local'' then
        (let name_prefix =
               (case container_name a of
                  None \<Rightarrow> map (\<lambda>c. if c = CHR '':'' then CHR ''-'' else c) (image_name a)
                | Some n \<Rightarrow>
                    if n = [] then map (\<lambda>c. if c = CHR '':'' then CHR ''-'' else c) (image_name a)
                    else n);
             unique_name = name_prefix @ ''-'' @ str_nat instance_id;
             args = local_backend_args a (Some unique_name) p;
             tr1 = tr @ [EvLocalBackend args]
         in case keyword_error E ''LocalBackend'' LocalBackend_keywords (backend_kwargs a) of
              Some e \<Rightarrow> (Inl e, tr)
            | None \<Rightarrow>
                (case LocalBackend E args of
                   Inl e \<Rightarrow> (Inl e, tr1)
                 | Inr b \<Rightarrow> (Inr \<lparr>host = h, port = p, backend = b, healthy = True\<rparr>, tr1)))
      else
        (Inl (Exn ValidationError
           (''Mode '' @ quoted (mode a) @ '' not supported for multi-instance'')), tr))"

text \<open>
  The tasks of \<open>asyncio.gather\<close>: all of them run, in the order of the list, whether an
  earlier one raised or not. \<open>gather\<close> gives the results in that order, or raises the
  first exception.
\<close>

fun run_tasks :: "(trace \<Rightarrow> (exn + 'a) \<times> trace) list \<Rightarrow> trace \<Rightarrow> (exn + 'a) list \<times> trace" where
  "run_tasks [] tr = ([], tr)"
| "run_tasks (t # ts) tr =
     (case t tr of
        (r, tr1) \<Rightarrow> (case run_tasks ts tr1 of (rs, tr2) \<Rightarrow> (r # rs, tr2)))"

fun gather :: "(exn + 'a) list \<Rightarrow> exn + 'a list" where
  "gather [] = Inr []"
| "gather (Inl e # rs) = Inl e"
| "gather (Inr x # rs) = (case gather rs of Inl e \<Rightarrow> Inl e | Inr xs \<Rightarrow> Inr (x # xs))"

text \<open>
  \<open>deploy_all\<close>: the list comprehension reads \<open>hosts[i]\<close> and calls
  \<open>_deploy_instance(..., **backend_kwargs)\<close> for every \<open>i\<close> in \<open>range(replicas)\<close> before
  any task runs. So an empty host list raises \<open>IndexError\<close> at \<open>i = 0\<close>, a keyword of
  \<open>backend_kwargs\<close> that the call writes out raises \<open>TypeError\<close> at \<open>i = 0\<close>, and a host
  list that is too short raises \<open>IndexError\<close> at its end; no task has run then.
\<close>

definition deploy_all ::
  "'b backends \<Rightarrow> load_args \<Rightarrow> string list \<Rightarrow> trace \<Rightarrow> (exn + 'b instance_info list) \<times> trace" where
  "deploy_all E a hs tr =
     (if 0 < nat (replicas a) \<and> hs = [] then
        (Inl (Exn IndexError ''list index out of range''), tr)
      else
        (case (if 0 < nat (replicas a)
               then keyword_error E ''_deploy_instance'' deploy_instance_keywords (backend_kwargs a)
               else None) of
           Some e \<Rightarrow> (Inl e, tr)
         | None \<Rightarrow>
             if length hs < nat (replicas a) then
               (Inl (Exn IndexError ''list index out of range''), tr)
             else
               (case run_tasks
                       (map (\<lambda>i. deploy_instance E a (hs ! i) (base_port a + int i) i)
                          [0..<nat (replicas a)]) tr of
                  (rs, tr') \<Rightarrow> (gather rs, tr'))))"

text \<open>
  \<open>loop.run_until_complete(coro)\<close> on the loop that \<open>asyncio.get_event_loop()\<close> gives:
  a closed loop and a running loop raise \<open>RuntimeError\<close> and the coroutine does not run.
\<close>

definition run_until_complete ::
  "'b backends \<Rightarrow> (trace \<Rightarrow> (exn + 'a) \<times> trace) \<Rightarrow> trace \<Rightarrow> (exn + 'a) \<times> trace" where
  "run_until_complete E coro tr =
     (case event_loop E of
        LoopClosed \<Rightarrow> (Inl (Exn RuntimeError ''Event loop is closed''), tr)
      | LoopRunning \<Rightarrow> (Inl (Exn RuntimeError ''This event loop is already running''), tr)
      | LoopIdle \<Rightarrow> coro tr)"

text \<open>The coroutine \<open>cleanup_all\<close> of the \<open>except\<close> block.\<close>

definition cleanup_all :: "'b backends \<Rightarrow> 'b instance_info list \<Rightarrow> trace \<Rightarrow> (exn + unit) \<times> trace" where
  "cleanup_all E insts tr =
     (case cleanup_members E insts tr of (errs, insts', tr') \<Rightarrow> (Inr (), tr'))"

text \<open>
  The \<open>except\<close> block of \<open>_load_multi_instance\<close>, for the value the variable
  \<open>instances\<close> has when the exception arrives: a non-empty list is cleaned up (an
  exception of that is logged), then the \<open>BackendError\<close> is raised.
\<close>

definition deploy_failed ::
  "'b backends \<Rightarrow> 'b instance_info list \<Rightarrow> exn \<Rightarrow> trace \<Rightarrow> exn \<times> trace" where
  "deploy_failed E insts e tr =
     (Exn BackendError (''Multi-instance deployment failed: '' @ message e),
      (if insts \<noteq> [] then snd (run_until_complete E (cleanup_all E insts) tr) else tr))"

definition resolve_hosts :: "load_args \<Rightarrow> string list" where
  "resolve_hosts a =
     (if host_list a = [] then replicate (nat (replicas a)) ''localhost'' else host_list a)"

text \<open>
  \<open>_load_multi_instance\<close>. \<open>instances\<close> is \<open>[]\<close> until \<open>run_until_complete\<close> has
  returned, so that is its value in the \<open>except\<close> block when a deployment, or
  \<open>run_until_complete\<close> itself, raised.
\<close>

definition load_multi_instance ::
  "'b backends \<Rightarrow> load_args \<Rightarrow> trace \<Rightarrow> (exn + 'b wrapper) \<times> trace" where
  "load_multi_instance E a tr =
     (case find (\<lambda>h. h \<noteq> ''localhost'') (resolve_hosts a) of
        Some h \<Rightarrow>
          (Inl (Exn NotImplementedError
             (''Remote SSH deployment to '' @ quoted h @ '' not yet implemented. ''
                @ ''Currently only localhost deployment is supported.'')), tr)
      | None \<Rightarrow>
          (case run_until_complete E (deploy_all E a (resolve_hosts a)) tr of
             (Inl e, tr1) \<Rightarrow> (case deploy_failed E [] e tr1 of (e', tr2) \<Rightarrow> (Inl e', tr2))
           | (Inr insts, tr1) \<Rightarrow>
               (case EnvironmentWrapper E (Pool (InstancePool E insts (load_balance a))) tr1 of
                  (w, tr2) \<Rightarrow>
                    (Inr w, tr2 @ [EvRegister (p_name (InstancePool E insts (load_balance a)))]))))"

text \<open>
  \<open>load_env\<close>. Its own \<open>except\<close> block logs and re-raises the same exception, also the
  \<open>TypeError\<close> of a call that gets a keyword twice through \<open>**backend_kwargs\<close>.
\<close>

definition load_env :: "'b backends \<Rightarrow> load_args \<Rightarrow> trace \<Rightarrow> (exn + 'b wrapper) \<times> trace" where
  "load_env E a tr =
     (if replicas a < 1 then (Inl (Exn ValidationError ''replicas must be >= 1''), tr)
      else if host_list a \<noteq> [] \<and> int (length (host_list a)) < replicas a then
        (Inl (Exn ValidationError
           (''Not enough hosts ('' @ str_int (int (length (host_list a)))
              @ '') for replicas ('' @ str_int (replicas a) @ ''). ''
              @ ''Either provide enough hosts or set hosts=None for local deployment.'')), tr)
      else if replicas a = 1 then
        (case keyword_error E ''_load_single_instance'' load_single_instance_keywords
                (backend_kwargs a) of
           Some e \<Rightarrow> (Inl e, tr)
         | None \<Rightarrow>
             load_single_instance E a
               (if host_list a \<noteq> [] then hd (host_list a) else ''localhost'') (base_port a) tr)
      else
        (case keyword_error E ''_load_multi_instance'' load_multi_instance_keywords
                (backend_kwargs a) of
           Some e \<Rightarrow> (Inl e, tr)
         | None \<Rightarrow> load_multi_instance E a tr))"

text \<open>The ports of the calls of the \<open>LocalBackend\<close> constructor in a trace, in their order.\<close>

fun local_ports :: "trace \<Rightarrow> int list" where
  "local_ports [] = []"
| "local_ports (EvLocalBackend args # tr) = la_http_port args # local_ports tr"
| "local_ports (EvRemoteBackend args # tr) = local_ports tr"
| "local_ports (EvIsReady n # tr) = local_ports tr"
| "local_ports (EvCleanup n # tr) = local_ports tr"
| "local_ports (EvCallMethod n m args t kwargs # tr) = local_ports tr"
| "local_ports (EvRegister n # tr) = local_ports tr"

section \<open>Sequences of operations on a proxy\<close>

text \<open>
  What a caller may do with a proxy, one operation after the other: \<open>cleanup()\<close>,
  \<open>is_ready()\<close>, \<open>get_stats()\<close> and forward requests. \<open>run_ops\<close> gives the proxy and
  the trace after such a sequence.
\<close>

datatype proxy_op =
    OpCleanup
  | OpIsReady
  | OpGetStats
  | OpForward string "pyval list" "(string \<times> pyval) list"

fun apply_op :: "'b backends \<Rightarrow> proxy_op \<Rightarrow> 'b wrapper \<Rightarrow> trace \<Rightarrow> 'b wrapper \<times> trace" where
  "apply_op E OpCleanup w tr = snd (cleanup E w tr)"
| "apply_op E OpIsReady w tr = (w, snd (is_ready E w tr))"
| "apply_op E OpGetStats w tr = (w, snd (get_stats w tr))"
| "apply_op E (OpForward name args kws) w tr = snd (forward E w name args kws tr)"

fun run_ops :: "'b backends \<Rightarrow> proxy_op list \<Rightarrow> 'b wrapper \<Rightarrow> trace \<Rightarrow> 'b wrapper \<times> trace" where
  "run_ops E [] w tr = (w, tr)"
| "run_ops E (x # xs) w tr = (case apply_op E x w tr of (w', tr') \<Rightarrow> run_ops E xs w' tr')"

section \<open>A proxy around a backend and a proxy around a pool of that backend\<close>

text \<open>
  The backend of a pool that holds one healthy instance, the readiness flag of a pool, and
  the correspondence of two proxies: the first wraps a backend, the second a pool whose
  one healthy instance holds that backend in the same state, their stored ready flags
  agree, and the pool's readiness flag is the stored flag of its proxy.
\<close>

definition singleton_backend :: "'b backend_obj \<Rightarrow> 'b option" where
  "singleton_backend bk =
     (case bk of
        Backend b \<Rightarrow> None
      | Pool p \<Rightarrow>
          (case instances p of
             [inst] \<Rightarrow> if healthy inst then Some (backend inst) else None
           | _ \<Rightarrow> None))"

definition pool_flag :: "'b backend_obj \<Rightarrow> bool option" where
  "pool_flag bk = (case bk of Backend b \<Rightarrow> None | Pool p \<Rightarrow> Some (p_ready p))"

definition corresponds :: "'b wrapper \<Rightarrow> 'b wrapper \<Rightarrow> bool" where
  "corresponds ws wp =
     (case w_backend ws of
        Backend b \<Rightarrow>
          singleton_backend (w_backend wp) = Some b \<and> w_is_ready ws = w_is_ready wp
          \<and> pool_flag (w_backend wp) = Some (w_is_ready wp)
      | Pool p \<Rightarrow> False)"

section \<open>Example backends\<close>

text \<open>
  A backend whose state is a counter: it reports ready in state 0 only, a call to any
  method but \<open>fail\<close> returns the counter and increments it, and \<open>cleanup\<close> moves it to
  state 2. A local backend cannot be constructed on port 9001. The event loop is idle.
\<close>

definition demo :: "nat backends" where
  "demo =
     \<lparr>LocalBackend = (\<lambda>args. if la_http_port args = 9001
                        then Inl (Exn (OtherError ''ContainerError'') ''port is already allocated'')
                        else Inr 0),
      RemoteBackend = (\<lambda>args. Inr 0),
      name_of = (\<lambda>b. ''env''),
      is_ready_of = (\<lambda>b. b = 0),
      cleanup_of = (\<lambda>b. (None, 2)),
      call_method_of = (\<lambda>b name args timeout kwargs.
         if name = ''fail'' then (Inl (Exn (OtherError ''RayExecutionError'') ''actor died''), b)
         else (Inr (PInt (int b)), Suc b)),
      pool_name_of = (\<lambda>n. ''pool''),
      random_choice = (\<lambda>n. 0),
      event_loop = LoopIdle,
      multiple_values_message =
        (\<lambda>f k. f @ ''() got multiple values for keyword argument '' @ quoted k)\<rparr>"

text \<open>The same backend, with a \<open>cleanup\<close> that raises and leaves the state as it is.\<close>

definition demo_failing_cleanup :: "nat backends" where
  "demo_failing_cleanup =
     demo\<lparr>cleanup_of := (\<lambda>b. (Some (Exn (OtherError ''ContainerError'') ''stop failed''), b))\<rparr>"

text \<open>The call \<open>load_env(image="x", replicas=3, base_port=8000)\<close>.\<close>

definition demo_args :: load_args where
  "demo_args =
     \<lparr>image_name = ''x'', mode = ''local'', replicas = 3, hosts = None,
      load_balance = ''random'', base_port = 8000, container_name = None, env_vars = None,
      env_type = None, force_recreate = False, backend_kwargs = []\<rparr>"

text \<open>The pool that this call gives on \<open>demo\<close>.\<close>

definition demo_pool :: "nat instance_pool" where
  "demo_pool =
     \<lparr>p_name = ''pool'',
      instances =
        [\<lparr>host = ''localhost'', port = 8000, backend = 0, healthy = True\<rparr>,
         \<lparr>host = ''localhost'', port = 8001, backend = 0, healthy = True\<rparr>,
         \<lparr>host = ''localhost'', port = 8002, backend = 0, healthy = True\<rparr>],
      strategy = ''random'', cursor = 0, p_ready = True\<rparr>"

text \<open>The proxy around a new backend, and the proxy after one forwarded call.\<close>

definition fresh_wrapper :: "nat wrapper" where
  "fresh_wrapper =
     \<lparr>w_backend = Backend 0, w_is_pool = False, w_name = ''env'', w_is_ready = True\<rparr>"

definition stale_wrapper :: "nat wrapper" where
  "stale_wrapper =
     \<lparr>w_backend = Backend 1, w_is_pool = False, w_name = ''env'', w_is_ready = True\<rparr>"

text \<open>The proxy after a cleanup that went through.\<close>

definition cleaned_wrapper :: "nat wrapper" where
  "cleaned_wrapper =
     \<lparr>w_backend = Backend 2, w_is_pool = False, w_name = ''env'', w_is_ready = False\<rparr>"

text \<open>
  The proxy around the pool of one instance of the backend of \<open>demo\<close>, new and after
  one forwarded call.
\<close>

definition singleton_pool_wrapper :: "nat wrapper" where
  "singleton_pool_wrapper =
     \<lparr>w_backend = Pool \<lparr>p_name = ''pool'',
        instances = [\<lparr>host = ''localhost'', port = 8000, backend = 0, healthy = True\<rparr>],
        strategy = ''random'', cursor = 0, p_ready = True\<rparr>,
      w_is_pool = True, w_name = ''pool'', w_is_ready = True\<rparr>"

definition stale_pool_wrapper :: "nat wrapper" where
  "stale_pool_wrapper =
     \<lparr>w_backend = Pool \<lparr>p_name = ''pool'',
        instances = [\<lparr>host = ''localhost'', port = 8000, backend = 1, healthy = True\<rparr>],
        strategy = ''random'', cursor = 0, p_ready = True\<rparr>,
      w_is_pool = True, w_name = ''pool'', w_is_ready = True\<rparr>"

section \<open>Properties of the environment wrapper\<close>

lemma forward_not_ready:
  "\<not> w_is_ready w \<Longrightarrow> \<not> startswith_underscore name \<Longrightarrow>
   forward E w name args kws tr =
     (Inl (Exn EnvironmentError (''Environment '' @ quoted (w_name w) @ '' not ready.'')), w, tr)"
  by (simp add: forward_def getattr_def)

lemma forward_not_ready_state:
  "\<not> w_is_ready w \<Longrightarrow> snd (forward E w name args kws tr) = (w, tr)"
  by (simp add: forward_def getattr_def)

lemma forward_ready_backend:
  "w_is_ready w \<Longrightarrow> \<not> startswith_underscore name \<Longrightarrow> w_backend w = Backend b \<Longrightarrow>
   snd (snd (forward E w name args kws tr)) =
     tr @ [EvCallMethod (name_of E b) name args (timeout_of kws) (business_kwargs kws)]"
  by (simp add: forward_def getattr_def method_caller_def backend_call_method_def
      split: prod.splits sum.splits)

lemma forward_ready_pool:
  "w_is_ready w \<Longrightarrow> \<not> startswith_underscore name \<Longrightarrow> w_backend w = Pool p \<Longrightarrow>
   snd (snd (forward E w name args kws tr)) =
     snd (snd (pool_call_method E p name args (timeout_of kws) (business_kwargs kws) tr))"
  by (simp add: forward_def getattr_def method_caller_def split: prod.splits sum.splits)

lemma forward_ready_failure:
  "w_is_ready w \<Longrightarrow> \<not> startswith_underscore name \<Longrightarrow>
   fst (obj_call_method E (w_backend w) name args (timeout_of kws) (business_kwargs kws) tr) = Inl e \<Longrightarrow>
   fst (forward E w name args kws tr) =
     Inl (Exn EnvironmentError
       (''Method '' @ quoted name @ '' failed on environment '' @ quoted (w_name w)
          @ '': '' @ message e))"
  by (cases "obj_call_method E (w_backend w) name args (timeout_of kws) (business_kwargs kws) tr")
    (simp add: forward_def getattr_def method_caller_def)

lemma obj_call_method_backend:
  "fst (obj_call_method E (Backend b) name args timeout kwargs tr) =
   fst (call_method_of E b name args timeout kwargs)"
  by (simp add: backend_call_method_def split: prod.splits)

lemma cleanup_returns: "fst (cleanup E w tr) = Inr ()"
  by (simp add: cleanup_def split: prod.splits option.splits)

lemma cleanup_flag:
  "w_is_ready (fst (snd (cleanup E w tr))) =
     (w_is_ready w \<and> fst (obj_cleanup E (w_backend w) tr) \<noteq> None)"
  by (auto simp: cleanup_def split: prod.splits option.splits)

lemma cleanup_name: "w_name (fst (snd (cleanup E w tr))) = w_name w"
  by (simp add: cleanup_def split: prod.splits option.splits)

lemma obj_cleanup_backend:
  "fst (obj_cleanup E (Backend b) tr) = fst (cleanup_of E b)"
  by (simp add: backend_cleanup_def split: prod.splits)

lemma apply_op_not_ready:
  assumes "\<not> w_is_ready w" and "apply_op E x w tr = (w', tr')"
  shows "\<not> w_is_ready w' \<and> w_name w' = w_name w"
proof (cases x)
  case OpCleanup
  with assms(2) have "w' = fst (snd (cleanup E w tr))" by (simp add: prod_eq_iff)
  with assms(1) show ?thesis by (simp add: cleanup_flag cleanup_name)
next
  case (OpForward name args kws)
  with assms show ?thesis by (simp add: forward_not_ready_state)
qed (use assms in auto)

lemma run_ops_not_ready:
  "\<not> w_is_ready w \<Longrightarrow> run_ops E xs w tr = (w', tr') \<Longrightarrow>
   \<not> w_is_ready w' \<and> w_name w' = w_name w"
proof (induction xs arbitrary: w tr)
  case Nil
  then show ?case by simp
next
  case (Cons x xs)
  obtain w1 tr1 where step: "apply_op E x w tr = (w1, tr1)"
    by (cases "apply_op E x w tr")
  from apply_op_not_ready [OF Cons.prems(1) step]
  have nr: "\<not> w_is_ready w1" and nm: "w_name w1 = w_name w" by simp_all
  from Cons.prems(2) step have "run_ops E xs w1 tr1 = (w', tr')" by simp
  from Cons.IH [OF nr this] nm show ?case by simp
qed

text \<open>
  C9. \<open>EnvironmentWrapper.cleanup\<close> returns normally for every backend, also one whose
  cleanup raises, and the stored ready flag is cleared exactly when the backend's cleanup
  did not raise: after a cleanup that raised, the flag is what it was.
\<close>

theorem cleanup_never_raises:
  "fst (cleanup E w tr) = Inr () \<and>
   w_is_ready (fst (snd (cleanup E w tr))) =
     (w_is_ready w \<and> fst (obj_cleanup E (w_backend w) tr) \<noteq> None) \<and>
   (w_backend w = Backend b \<longrightarrow>
      w_is_ready (fst (snd (cleanup E w tr))) = (w_is_ready w \<and> fst (cleanup_of E b) \<noteq> None))"
  by (auto simp: cleanup_returns cleanup_flag obj_cleanup_backend simp del: obj_cleanup.simps)

theorem cleanup_never_raises_witness:
  "w_backend fresh_wrapper = Backend 0 \<and>
   fst (cleanup_of demo_failing_cleanup 0) \<noteq> None \<and>
   fst (cleanup demo_failing_cleanup fresh_wrapper []) = Inr () \<and>
   w_is_ready (fst (snd (cleanup demo_failing_cleanup fresh_wrapper [])))"
proof -
  have b: "w_backend fresh_wrapper = Backend 0" by code_simp
  have r: "fst (cleanup_of demo_failing_cleanup 0) \<noteq> None" by code_simp
  have f: "w_is_ready fresh_wrapper" by code_simp
  from cleanup_never_raises [of demo_failing_cleanup fresh_wrapper "[]" 0] b r f
  show ?thesis by blast
qed

text \<open>
  C10. For a proxy around a single backend \<open>get_stats\<close> returns \<open>None\<close> and leaves the
  trace as it is (the backend is not contacted); around a pool it returns the pool's
  statistics; and statistics are only ever returned when \<open>_is_pool\<close> is set.
\<close>

theorem get_stats_single_backend:
  "get_stats (fst (EnvironmentWrapper E (Backend b) tr0)) tr = (Inr None, tr) \<and>
   get_stats (fst (EnvironmentWrapper E (Pool p) tr0)) tr = (Inr (Some (pool_get_stats p)), tr) \<and>
   (\<not> w_is_pool w \<longrightarrow> get_stats w tr = (Inr None, tr)) \<and>
   (fst (get_stats w tr) = Inr (Some s) \<longrightarrow> w_is_pool w)"
  by (auto simp: get_stats_def EnvironmentWrapper_def split: prod.splits backend_obj.splits)

theorem get_stats_single_backend_witness:
  "\<not> w_is_pool stale_wrapper \<and>
   get_stats stale_wrapper [EvIsReady ''env''] = (Inr None, [EvIsReady ''env'']) \<and>
   get_stats (fst (EnvironmentWrapper demo (Backend 0) [])) [] = (Inr None, []) \<and>
   fst (get_stats singleton_pool_wrapper []) =
     Inr (Some \<lparr>total_instances = 1, healthy_instances = 1, stats_strategy = ''random''\<rparr>) \<and>
   w_is_pool singleton_pool_wrapper"
proof -
  have "\<not> w_is_pool stale_wrapper" by code_simp
  with get_stats_single_backend [of demo 0 "[]" "[]" demo_pool stale_wrapper]
    get_stats_single_backend [of demo 0 "[]" "[EvIsReady ''env'']" demo_pool stale_wrapper]
  have 1: "\<not> w_is_pool stale_wrapper \<and>
     get_stats stale_wrapper [EvIsReady ''env''] = (Inr None, [EvIsReady ''env'']) \<and>
     get_stats (fst (EnvironmentWrapper demo (Backend 0) [])) [] = (Inr None, [])"
    by simp
  have g: "fst (get_stats singleton_pool_wrapper []) =
     Inr (Some \<lparr>total_instances = 1, healthy_instances = 1, stats_strategy = ''random''\<rparr>)"
    by code_simp
  with get_stats_single_backend [of demo 0 "[]" "[]" demo_pool singleton_pool_wrapper
      "\<lparr>total_instances = 1, healthy_instances = 1, stats_strategy = ''random''\<rparr>"]
  have "w_is_pool singleton_pool_wrapper" by blast
  with 1 g show ?thesis by simp
qed

lemma business_kwargs_no_timeout: "''timeout'' \<notin> fst ` set (business_kwargs kws)"
  by (auto simp: business_kwargs_def)

lemma business_kwargs_lookup:
  "k \<noteq> ''timeout'' \<Longrightarrow> map_of (business_kwargs kws) k = map_of kws k"
  unfolding business_kwargs_def by (induction kws) auto

lemma business_kwargs_id:
  "''timeout'' \<notin> fst ` set kws \<Longrightarrow> business_kwargs kws = kws"
  unfolding business_kwargs_def by (induction kws) auto

lemma timeout_of_absent: "''timeout'' \<notin> fst ` set kws \<Longrightarrow> timeout_of kws = PNone"
  by (induction kws) (auto simp: timeout_of_def)

text \<open>
  C5. A forward request on a ready proxy issues one \<open>call_method\<close> on the backend with
  the method name, the positional arguments as they were given, the value of the keyword
  \<open>timeout\<close> (or \<open>None\<close>) as the timeout parameter, and the other keywords, in their
  order and with their values, as the keyword arguments: \<open>timeout\<close> is never among them.
  What the caller gets is what the backend's \<open>call_method\<close> returns on these arguments
  (or the \<open>EnvironmentError\<close> around what it raises), and the backend is left in the state
  that call leaves it in. Around a pool, the same four arguments go to the pool's
  \<open>call_method\<close>.
\<close>

theorem forward_passes_arguments:
  assumes "w_is_ready w" and "\<not> startswith_underscore name"
  shows "(w_backend w = Backend b \<longrightarrow>
            snd (snd (forward E w name args kws tr)) =
              tr @ [EvCallMethod (name_of E b) name args (timeout_of kws) (business_kwargs kws)]
            \<and> (\<forall>v. fst (call_method_of E b name args (timeout_of kws) (business_kwargs kws)) = Inr v
                  \<longrightarrow> fst (forward E w name args kws tr) = Inr v)
            \<and> (\<forall>e. fst (call_method_of E b name args (timeout_of kws) (business_kwargs kws)) = Inl e
                  \<longrightarrow> fst (forward E w name args kws tr) =
                        Inl (Exn EnvironmentError
                          (''Method '' @ quoted name @ '' failed on environment ''
                             @ quoted (w_name w) @ '': '' @ message e)))
            \<and> w_backend (fst (snd (forward E w name args kws tr))) =
                Backend (snd (call_method_of E b name args (timeout_of kws) (business_kwargs kws))))
         \<and> (w_backend w = Pool p \<longrightarrow>
            snd (snd (forward E w name args kws tr)) =
              snd (snd (pool_call_method E p name args (timeout_of kws) (business_kwargs kws) tr))
            \<and> (\<forall>v. fst (pool_call_method E p name args (timeout_of kws) (business_kwargs kws) tr)
                      = Inr v
                  \<longrightarrow> fst (forward E w name args kws tr) = Inr v))
         \<and> business_kwargs kws = filter (\<lambda>kv. fst kv \<noteq> ''timeout'') kws
         \<and> ''timeout'' \<notin> fst ` set (business_kwargs kws)
         \<and> (\<forall>k. k \<noteq> ''timeout'' \<longrightarrow> map_of (business_kwargs kws) k = map_of kws k)
         \<and> (\<forall>v. map_of kws ''timeout'' = Some v \<longrightarrow> timeout_of kws = v)
         \<and> (''timeout'' \<notin> fst ` set kws \<longrightarrow> business_kwargs kws = kws \<and> timeout_of kws = PNone)"
proof -
  have "\<forall>v. map_of kws ''timeout'' = Some v \<longrightarrow> timeout_of kws = v"
    by (simp add: timeout_of_def)
  moreover have "business_kwargs kws = filter (\<lambda>kv. fst kv \<noteq> ''timeout'') kws"
    by (simp add: business_kwargs_def)
  moreover have "w_backend w = Backend b \<longrightarrow>
            snd (snd (forward E w name args kws tr)) =
              tr @ [EvCallMethod (name_of E b) name args (timeout_of kws) (business_kwargs kws)]
            \<and> (\<forall>v. fst (call_method_of E b name args (timeout_of kws) (business_kwargs kws)) = Inr v
                  \<longrightarrow> fst (forward E w name args kws tr) = Inr v)
            \<and> (\<forall>e. fst (call_method_of E b name args (timeout_of kws) (business_kwargs kws)) = Inl e
                  \<longrightarrow> fst (forward E w name args kws tr) =
                        Inl (Exn EnvironmentError
                          (''Method '' @ quoted name @ '' failed on environment ''
                             @ quoted (w_name w) @ '': '' @ message e)))
            \<and> w_backend (fst (snd (forward E w name args kws tr))) =
                Backend (snd (call_method_of E b name args (timeout_of kws) (business_kwargs kws)))"
    using assms
    by (cases "call_method_of E b name args (timeout_of kws) (business_kwargs kws)")
      (auto simp: forward_def getattr_def method_caller_def backend_call_method_def
        split: sum.splits)
  moreover have "w_backend w = Pool p \<longrightarrow>
            snd (snd (forward E w name args kws tr)) =
              snd (snd (pool_call_method E p name args (timeout_of kws) (business_kwargs kws) tr))
            \<and> (\<forall>v. fst (pool_call_method E p name args (timeout_of kws) (business_kwargs kws) tr)
                      = Inr v
                  \<longrightarrow> fst (forward E w name args kws tr) = Inr v)"
    using assms
    by (cases "pool_call_method E p name args (timeout_of kws) (business_kwargs kws) tr")
      (auto simp: forward_def getattr_def method_caller_def split: sum.splits)
  moreover note business_kwargs_no_timeout [of kws]
  moreover have "\<forall>k. k \<noteq> ''timeout'' \<longrightarrow> map_of (business_kwargs kws) k = map_of kws k"
    by (simp add: business_kwargs_lookup)
  moreover have "''timeout'' \<notin> fst ` set kws \<longrightarrow> business_kwargs kws = kws \<and> timeout_of kws = PNone"
    by (simp add: business_kwargs_id timeout_of_absent)
  ultimately show ?thesis by blast
qed

theorem forward_passes_arguments_witness:
  "w_is_ready fresh_wrapper \<and> \<not> startswith_underscore ''evaluate'' \<and>
   w_backend fresh_wrapper = Backend 0 \<and>
   map_of [(''task_type'', PStr ''sat''), (''timeout'', PInt 30), (''num_samples'', PInt 5)]
     ''timeout'' = Some (PInt 30) \<and>
   fst (call_method_of demo 0 ''evaluate'' [PInt 1, PInt 2] (PInt 30)
     [(''task_type'', PStr ''sat''), (''num_samples'', PInt 5)]) = Inr (PInt 0) \<and>
   snd (snd (forward demo fresh_wrapper ''evaluate'' [PInt 1, PInt 2]
     [(''task_type'', PStr ''sat''), (''timeout'', PInt 30), (''num_samples'', PInt 5)] [])) =
   [EvCallMethod ''env'' ''evaluate'' [PInt 1, PInt 2] (PInt 30)
      [(''task_type'', PStr ''sat''), (''num_samples'', PInt 5)]] \<and>
   fst (forward demo fresh_wrapper ''evaluate'' [PInt 1, PInt 2]
     [(''task_type'', PStr ''sat''), (''timeout'', PInt 30), (''num_samples'', PInt 5)] []) =
   Inr (PInt 0)"
proof -
  have r: "w_is_ready fresh_wrapper" by code_simp
  have n: "\<not> startswith_underscore ''evaluate''" by code_simp
  have b: "w_backend fresh_wrapper = Backend 0" by code_simp
  have m: "map_of [(''task_type'', PStr ''sat''), (''timeout'', PInt 30), (''num_samples'', PInt 5)]
     ''timeout'' = Some (PInt 30)" by code_simp
  have nm: "name_of demo 0 = ''env''" by code_simp
  have bk: "filter (\<lambda>kv. fst kv \<noteq> ''timeout'')
      [(''task_type'', PStr ''sat''), (''timeout'', PInt 30), (''num_samples'', PInt 5)] =
      [(''task_type'', PStr ''sat''), (''num_samples'', PInt 5)]" by code_simp
  have c: "fst (call_method_of demo 0 ''evaluate'' [PInt 1, PInt 2] (PInt 30)
     [(''task_type'', PStr ''sat''), (''num_samples'', PInt 5)]) = Inr (PInt 0)" by code_simp
  note t = forward_passes_arguments [OF r n, of 0 demo "[PInt 1, PInt 2]"
      "[(''task_type'', PStr ''sat''), (''timeout'', PInt 30), (''num_samples'', PInt 5)]" "[]"]
  from t m have to: "timeout_of [(''task_type'', PStr ''sat''), (''timeout'', PInt 30),
      (''num_samples'', PInt 5)] = PInt 30" by blast
  from t bk have bw: "business_kwargs [(''task_type'', PStr ''sat''), (''timeout'', PInt 30),
      (''num_samples'', PInt 5)] = [(''task_type'', PStr ''sat''), (''num_samples'', PInt 5)]"
    by simp
  from t b have e: "snd (snd (forward demo fresh_wrapper ''evaluate'' [PInt 1, PInt 2]
     [(''task_type'', PStr ''sat''), (''timeout'', PInt 30), (''num_samples'', PInt 5)] [])) =
     [] @ [EvCallMethod (name_of demo 0) ''evaluate'' [PInt 1, PInt 2]
        (timeout_of [(''task_type'', PStr ''sat''), (''timeout'', PInt 30), (''num_samples'', PInt 5)])
        (business_kwargs [(''task_type'', PStr ''sat''), (''timeout'', PInt 30), (''num_samples'', PInt 5)])]"
    by blast
  from t b have "\<forall>v. fst (call_method_of demo 0 ''evaluate'' [PInt 1, PInt 2]
        (timeout_of [(''task_type'', PStr ''sat''), (''timeout'', PInt 30), (''num_samples'', PInt 5)])
        (business_kwargs [(''task_type'', PStr ''sat''), (''timeout'', PInt 30), (''num_samples'', PInt 5)]))
        = Inr v \<longrightarrow>
      fst (forward demo fresh_wrapper ''evaluate'' [PInt 1, PInt 2]
        [(''task_type'', PStr ''sat''), (''timeout'', PInt 30), (''num_samples'', PInt 5)] []) = Inr v"
    by blast
  with c have res: "fst (forward demo fresh_wrapper ''evaluate'' [PInt 1, PInt 2]
        [(''task_type'', PStr ''sat''), (''timeout'', PInt 30), (''num_samples'', PInt 5)] []) =
        Inr (PInt 0)"
    unfolding to bw by blast
  have chk: "forward demo fresh_wrapper ''evaluate'' [PInt 1, PInt 2]
        [(''task_type'', PStr ''sat''), (''timeout'', PInt 30), (''num_samples'', PInt 5)] [] =
      (Inr (PInt 0), stale_wrapper,
       [EvCallMethod ''env'' ''evaluate'' [PInt 1, PInt 2] (PInt 30)
          [(''task_type'', PStr ''sat''), (''num_samples'', PInt 5)]])"
    by code_simp
  from e to bw nm r n b m c res chk show ?thesis by simp
qed

text \<open>
  C6. When the call on the backend (or on the pool) raises an exception \<open>e\<close>, a forward
  request on a ready proxy raises one \<open>EnvironmentError\<close>, whose message names the method
  and the environment and ends with the message of \<open>e\<close>; the class of \<open>e\<close> does not reach
  the caller.
\<close>

theorem forward_failure_is_environment_error:
  assumes "w_is_ready w" and "\<not> startswith_underscore name"
  shows "(fst (obj_call_method E (w_backend w) name args (timeout_of kws) (business_kwargs kws) tr)
            = Inl e \<longrightarrow>
          fst (forward E w name args kws tr) =
            Inl (Exn EnvironmentError
              (''Method '' @ quoted name @ '' failed on environment '' @ quoted (w_name w)
                 @ '': '' @ message e)))
         \<and> (w_backend w = Backend b \<and>
            fst (call_method_of E b name args (timeout_of kws) (business_kwargs kws)) = Inl e \<longrightarrow>
          fst (forward E w name args kws tr) =
            Inl (Exn EnvironmentError
              (''Method '' @ quoted name @ '' failed on environment '' @ quoted (w_name w)
                 @ '': '' @ message e)))"
proof -
  have "w_backend w = Backend b \<Longrightarrow>
        fst (call_method_of E b name args (timeout_of kws) (business_kwargs kws)) = Inl e \<Longrightarrow>
        fst (obj_call_method E (w_backend w) name args (timeout_of kws) (business_kwargs kws) tr) = Inl e"
    by (simp add: obj_call_method_backend del: obj_call_method.simps)
  with forward_ready_failure [OF assms, of E args kws tr e] show ?thesis
    by auto
qed

theorem forward_failure_is_environment_error_witness:
  "w_is_ready stale_wrapper \<and> \<not> startswith_underscore ''fail'' \<and>
   fst (obj_call_method demo (w_backend stale_wrapper) ''fail'' [] (timeout_of []) (business_kwargs []) [])
     = Inl (Exn (OtherError ''RayExecutionError'') ''actor died'') \<and>
   fst (forward demo stale_wrapper ''fail'' [] [] []) =
     Inl (Exn EnvironmentError
       (''Method '' @ quoted ''fail'' @ '' failed on environment '' @ quoted ''env''
          @ '': actor died''))"
proof -
  have r: "w_is_ready stale_wrapper" by code_simp
  have n: "\<not> startswith_underscore ''fail''" by code_simp
  have c: "fst (obj_call_method demo (w_backend stale_wrapper) ''fail'' [] (timeout_of [])
      (business_kwargs []) []) = Inl (Exn (OtherError ''RayExecutionError'') ''actor died'')"
    by code_simp
  have nm: "w_name stale_wrapper = ''env''" by code_simp
  from forward_failure_is_environment_error [OF r n, of demo "[]" "[]" "[]"
      "Exn (OtherError ''RayExecutionError'') ''actor died''"] c
  have "fst (forward demo stale_wrapper ''fail'' [] [] []) =
     Inl (Exn EnvironmentError
       (''Method '' @ quoted ''fail'' @ '' failed on environment '' @ quoted (w_name stale_wrapper)
          @ '': '' @ message (Exn (OtherError ''RayExecutionError'') ''actor died'')))"
    by blast
  with r n c nm show ?thesis by simp
qed

text \<open>
  C2, as the code has it. \<open>is_ready()\<close> gives the stored flag and, when that is set,
  asks what the proxy wraps: around a backend, the live backend. A forward request is
  decided by the stored flag alone. With the flag set the proxy calls \<open>call_method\<close> of
  what it wraps and nothing else: the trace and the value are those of that call.
  Around a backend, the call goes to the backend's \<open>call_method\<close>, whose value is
  returned and whose next state is kept, and the backend's \<open>is_ready\<close> is not invoked.
  With the flag cleared the request fails with \<open>EnvironmentError\<close> and nothing is
  contacted.
\<close>

theorem forward_gated_by_stored_flag:
  assumes "\<not> startswith_underscore name"
  shows "is_ready E w tr =
           (if w_is_ready w then obj_is_ready E (w_backend w) tr else (False, tr))
         \<and> (w_backend w = Backend b \<longrightarrow>
              is_ready E w tr =
                (if w_is_ready w then (is_ready_of E b, tr @ [EvIsReady (name_of E b)])
                 else (False, tr)))
         \<and> (w_is_ready w \<longrightarrow>
              snd (snd (forward E w name args kws tr)) =
                snd (snd (obj_call_method E (w_backend w) name args (timeout_of kws)
                  (business_kwargs kws) tr))
              \<and> (\<forall>v. fst (obj_call_method E (w_backend w) name args (timeout_of kws)
                      (business_kwargs kws) tr) = Inr v \<longrightarrow>
                    fst (forward E w name args kws tr) = Inr v))
         \<and> (w_is_ready w \<and> w_backend w = Backend b \<longrightarrow>
              snd (snd (forward E w name args kws tr)) =
                tr @ [EvCallMethod (name_of E b) name args (timeout_of kws) (business_kwargs kws)]
              \<and> (\<forall>v. fst (call_method_of E b name args (timeout_of kws) (business_kwargs kws))
                      = Inr v \<longrightarrow>
                    fst (forward E w name args kws tr) = Inr v)
              \<and> w_backend (fst (snd (forward E w name args kws tr))) =
                  Backend (snd (call_method_of E b name args (timeout_of kws)
                    (business_kwargs kws))))
         \<and> (\<not> w_is_ready w \<longrightarrow>
              forward E w name args kws tr =
                (Inl (Exn EnvironmentError (''Environment '' @ quoted (w_name w) @ '' not ready.'')),
                 w, tr))"
proof -
  have 1: "is_ready E w tr =
          (if w_is_ready w then obj_is_ready E (w_backend w) tr else (False, tr))"
    by (simp add: is_ready_def)
  have 2: "w_backend w = Backend b \<longrightarrow>
              is_ready E w tr =
                (if w_is_ready w then (is_ready_of E b, tr @ [EvIsReady (name_of E b)])
                 else (False, tr))"
    by (simp add: is_ready_def backend_is_ready_def)
  have 3: "w_is_ready w \<longrightarrow>
              snd (snd (forward E w name args kws tr)) =
                snd (snd (obj_call_method E (w_backend w) name args (timeout_of kws)
                  (business_kwargs kws) tr))
              \<and> (\<forall>v. fst (obj_call_method E (w_backend w) name args (timeout_of kws)
                      (business_kwargs kws) tr) = Inr v \<longrightarrow>
                    fst (forward E w name args kws tr) = Inr v)"
    using assms
    by (cases "obj_call_method E (w_backend w) name args (timeout_of kws) (business_kwargs kws) tr")
      (auto simp: forward_def getattr_def method_caller_def split: sum.splits)
  have 4: "w_is_ready w \<and> w_backend w = Backend b \<longrightarrow>
              snd (snd (forward E w name args kws tr)) =
                tr @ [EvCallMethod (name_of E b) name args (timeout_of kws) (business_kwargs kws)]
              \<and> (\<forall>v. fst (call_method_of E b name args (timeout_of kws) (business_kwargs kws))
                      = Inr v \<longrightarrow>
                    fst (forward E w name args kws tr) = Inr v)
              \<and> w_backend (fst (snd (forward E w name args kws tr))) =
                  Backend (snd (call_method_of E b name args (timeout_of kws)
                    (business_kwargs kws)))"
    using assms
    by (cases "call_method_of E b name args (timeout_of kws) (business_kwargs kws)")
      (auto simp: forward_def getattr_def method_caller_def backend_call_method_def
        split: sum.splits)
  have 5: "\<not> w_is_ready w \<longrightarrow>
              forward E w name args kws tr =
                (Inl (Exn EnvironmentError (''Environment '' @ quoted (w_name w) @ '' not ready.'')),
                 w, tr)"
    using assms by (simp add: forward_def getattr_def)
  from 1 2 3 4 5 show ?thesis by blast
qed

theorem forward_gated_by_stored_flag_witness:
  "\<not> startswith_underscore ''evaluate'' \<and> w_backend stale_wrapper = Backend 1 \<and>
   w_is_ready stale_wrapper \<and>
   fst (call_method_of demo 1 ''evaluate'' [] PNone []) = Inr (PInt 1) \<and>
   is_ready demo stale_wrapper [] = (False, [EvIsReady ''env'']) \<and>
   snd (snd (forward demo stale_wrapper ''evaluate'' [] [] [])) =
     [EvCallMethod ''env'' ''evaluate'' [] PNone []] \<and>
   fst (forward demo stale_wrapper ''evaluate'' [] [] []) = Inr (PInt 1) \<and>
   w_backend cleaned_wrapper = Backend 2 \<and> \<not> w_is_ready cleaned_wrapper \<and>
   forward demo cleaned_wrapper ''evaluate'' [] [] [] =
     (Inl (Exn EnvironmentError (''Environment '' @ quoted ''env'' @ '' not ready.'')),
      cleaned_wrapper, [])"
proof -
  have n: "\<not> startswith_underscore ''evaluate''" by code_simp
  have b: "w_backend stale_wrapper = Backend 1" by code_simp
  have b2: "w_backend cleaned_wrapper = Backend 2" by code_simp
  have r2: "\<not> w_is_ready cleaned_wrapper" and nm2: "w_name cleaned_wrapper = ''env''"
    by code_simp+
  from forward_gated_by_stored_flag [OF n, of demo cleaned_wrapper "[]" 2 "[]" "[]"] r2 nm2
  have c2: "forward demo cleaned_wrapper ''evaluate'' [] [] [] =
     (Inl (Exn EnvironmentError (''Environment '' @ quoted ''env'' @ '' not ready.'')),
      cleaned_wrapper, [])" by simp
  have r: "w_is_ready stale_wrapper" by code_simp
  have v: "is_ready_of demo 1 = False" "name_of demo 1 = ''env''" "timeout_of [] = PNone"
    "business_kwargs [] = []" by code_simp+
  have c: "fst (call_method_of demo 1 ''evaluate'' [] PNone []) = Inr (PInt 1)" by code_simp
  note t = forward_gated_by_stored_flag [OF n, of demo stale_wrapper "[]" 1 "[]" "[]"]
  from t b have "is_ready demo stale_wrapper [] =
      (if w_is_ready stale_wrapper then (is_ready_of demo 1, [] @ [EvIsReady (name_of demo 1)])
       else (False, []))"
    by blast
  with r have "is_ready demo stale_wrapper [] =
      (is_ready_of demo 1, [] @ [EvIsReady (name_of demo 1)])"
    by (simp only: if_True)
  moreover from t r b have "snd (snd (forward demo stale_wrapper ''evaluate'' [] [] [])) =
    [] @ [EvCallMethod (name_of demo 1) ''evaluate'' [] (timeout_of []) (business_kwargs [])]"
    by blast
  moreover from t r b have "\<forall>v. fst (call_method_of demo 1 ''evaluate'' [] (timeout_of [])
        (business_kwargs [])) = Inr v \<longrightarrow>
      fst (forward demo stale_wrapper ''evaluate'' [] [] []) = Inr v"
    by blast
  with c have "fst (forward demo stale_wrapper ''evaluate'' [] [] []) = Inr (PInt 1)"
    unfolding v by blast
  moreover have "forward demo stale_wrapper ''evaluate'' [] [] [] =
      (Inr (PInt 1), stale_wrapper\<lparr>w_backend := Backend 2\<rparr>,
       [EvCallMethod ''env'' ''evaluate'' [] PNone []])"
    and "is_ready demo stale_wrapper [] = (False, [EvIsReady ''env''])"
    by code_simp+
  ultimately show ?thesis using n b r v b2 r2 c2 c by simp
qed

text \<open>
  C2 as stated fails: the proxy built around a ready backend, after one forwarded call
  that leaves the backend not ready, forwards the next call all the same, and the trace
  of that call holds no \<open>is_ready\<close> of the backend.
\<close>

theorem forward_rechecks_readiness_counterexample:
  "fst (EnvironmentWrapper demo (Backend 0) []) = fresh_wrapper \<and>
   fst (snd (forward demo fresh_wrapper ''evaluate'' [] [] [])) = stale_wrapper \<and>
   w_backend stale_wrapper = Backend 1 \<and> \<not> is_ready_of demo 1 \<and>
   forward demo stale_wrapper ''evaluate'' [] [] [] =
     (Inr (PInt 1), stale_wrapper\<lparr>w_backend := Backend 2\<rparr>,
      [EvCallMethod ''env'' ''evaluate'' [] PNone []])"
  by code_simp

text \<open>
  C3, as the code has it. Once \<open>cleanup()\<close> has been called and the backend's cleanup
  returned without raising, then after any further operations on the proxy a forward
  request fails with \<open>EnvironmentError\<close> and leaves the proxy and the trace as they are
  (nothing reaches the backend), and another \<open>cleanup()\<close> returns normally and leaves the
  proxy not ready.
\<close>

theorem forward_after_cleanup:
  assumes "fst (obj_cleanup E (w_backend w) tr) = None"
    and "\<not> startswith_underscore name"
    and "run_ops E xs (fst (snd (cleanup E w tr))) (snd (snd (cleanup E w tr))) = (w', tr')"
  shows "forward E w' name args kws tr' =
           (Inl (Exn EnvironmentError (''Environment '' @ quoted (w_name w) @ '' not ready.'')),
            w', tr')
         \<and> fst (cleanup E w' tr') = Inr ()
         \<and> \<not> w_is_ready (fst (snd (cleanup E w' tr')))"
proof -
  from assms(1) have nr: "\<not> w_is_ready (fst (snd (cleanup E w tr)))"
    by (simp add: cleanup_flag)
  from run_ops_not_ready [OF nr assms(3)]
  have nr': "\<not> w_is_ready w'" and nm: "w_name w' = w_name w"
    by (simp_all add: cleanup_name)
  from forward_not_ready [OF nr' assms(2)] nm
  have "forward E w' name args kws tr' =
          (Inl (Exn EnvironmentError (''Environment '' @ quoted (w_name w) @ '' not ready.'')),
           w', tr')" by simp
  moreover from nr' have "\<not> w_is_ready (fst (snd (cleanup E w' tr')))"
    by (simp add: cleanup_flag)
  ultimately show ?thesis by (simp add: cleanup_returns)
qed

theorem forward_after_cleanup_witness:
  "fst (obj_cleanup demo (w_backend fresh_wrapper) []) = None \<and>
   \<not> startswith_underscore ''evaluate'' \<and>
   run_ops demo [OpForward ''evaluate'' [] [], OpCleanup]
     (fst (snd (cleanup demo fresh_wrapper []))) (snd (snd (cleanup demo fresh_wrapper []))) =
     (cleaned_wrapper, [EvCleanup ''env'', EvCleanup ''env'']) \<and>
   forward demo cleaned_wrapper ''evaluate'' [] [] [EvCleanup ''env'', EvCleanup ''env''] =
     (Inl (Exn EnvironmentError (''Environment '' @ quoted ''env'' @ '' not ready.'')),
      cleaned_wrapper, [EvCleanup ''env'', EvCleanup ''env''])"
proof -
  have c: "fst (obj_cleanup demo (w_backend fresh_wrapper) []) = None" by code_simp
  have n: "\<not> startswith_underscore ''evaluate''" by code_simp
  have x: "run_ops demo [OpForward ''evaluate'' [] [], OpCleanup]
     (fst (snd (cleanup demo fresh_wrapper []))) (snd (snd (cleanup demo fresh_wrapper []))) =
     (cleaned_wrapper, [EvCleanup ''env'', EvCleanup ''env''])" by code_simp
  have nm: "w_name fresh_wrapper = ''env''" by code_simp
  from forward_after_cleanup [OF c n x, of "[]" "[]"] nm c n x show ?thesis by simp
qed

text \<open>
  C3 as stated fails when the backend's cleanup raises: the proxy's \<open>cleanup()\<close> returns
  normally and leaves the proxy as it was, and the forward request after it reaches the
  backend and returns its result.
\<close>

theorem forward_after_failed_cleanup_counterexample:
  "fst (EnvironmentWrapper demo_failing_cleanup (Backend 0) []) = fresh_wrapper \<and>
   fst (cleanup_of demo_failing_cleanup 0) = Some (Exn (OtherError ''ContainerError'') ''stop failed'') \<and>
   cleanup demo_failing_cleanup fresh_wrapper [] = (Inr (), fresh_wrapper, [EvCleanup ''env'']) \<and>
   forward demo_failing_cleanup fresh_wrapper ''evaluate'' [] [] [EvCleanup ''env''] =
     (Inr (PInt 0), stale_wrapper,
      [EvCleanup ''env'', EvCallMethod ''env'' ''evaluate'' [] PNone []])"
  by code_simp

section \<open>Properties of loading\<close>

lemma deploy_instance_ok:
  assumes "deploy_instance E a h p i tr = (Inr inst, tr')"
  shows "host inst = ''localhost'' \<and> port inst = p \<and> healthy inst
         \<and> (\<exists>cname. LocalBackend E (local_backend_args a cname p) = Inr (backend inst))"
proof -
  from assms have h: "h = ''localhost''" and m: "mode a = ''local''"
    by (auto simp: deploy_instance_def split: if_splits)
  from assms have "\<exists>cname. LocalBackend E (local_backend_args a cname p) = Inr (backend inst)"
    and "host inst = ''localhost''" and "port inst = p" and "healthy inst"
    unfolding deploy_instance_def Let_def
    by (auto simp: h m split: sum.splits option.splits)
  then show ?thesis by blast
qed

lemma gather_Cons_Inr:
  "gather (r # rs) = Inr insts \<Longrightarrow>
   \<exists>x xs. r = Inr x \<and> gather rs = Inr xs \<and> insts = x # xs"
  by (cases r) (auto split: sum.splits)

lemma run_tasks_deploy:
  "run_tasks (map (\<lambda>i. deploy_instance E a (hs ! i) (P + int i) i) xs) tr = (rs, tr') \<Longrightarrow>
   gather rs = Inr insts \<Longrightarrow>
   length insts = length xs
   \<and> (\<forall>k < length xs.
         host (insts ! k) = ''localhost'' \<and> port (insts ! k) = P + int (xs ! k)
         \<and> (\<exists>cname. LocalBackend E (local_backend_args a cname (P + int (xs ! k))) =
               Inr (backend (insts ! k))))"
proof (induction xs arbitrary: tr rs insts tr')
  case Nil
  then show ?case by auto
next
  case (Cons i xs)
  obtain r tr1 where d: "deploy_instance E a (hs ! i) (P + int i) i tr = (r, tr1)"
    by (cases "deploy_instance E a (hs ! i) (P + int i) i tr")
  obtain rs' tr2 where t:
    "run_tasks (map (\<lambda>i. deploy_instance E a (hs ! i) (P + int i) i) xs) tr1 = (rs', tr2)"
    by (cases "run_tasks (map (\<lambda>i. deploy_instance E a (hs ! i) (P + int i) i) xs) tr1")
  from Cons.prems(1) d t have rs: "rs = r # rs'" by simp
  from gather_Cons_Inr [OF Cons.prems(2) [unfolded rs]]
  obtain x ys where r: "r = Inr x" and g: "gather rs' = Inr ys" and insts: "insts = x # ys"
    by blast
  from deploy_instance_ok [OF d [unfolded r]]
  have x: "host x = ''localhost''" "port x = P + int i"
    "\<exists>cname. LocalBackend E (local_backend_args a cname (P + int i)) = Inr (backend x)"
    by simp_all
  from Cons.IH [OF t g]
  have len: "length ys = length xs"
    and ih: "\<forall>k < length xs.
         host (ys ! k) = ''localhost'' \<and> port (ys ! k) = P + int (xs ! k)
         \<and> (\<exists>cname. LocalBackend E (local_backend_args a cname (P + int (xs ! k))) =
               Inr (backend (ys ! k)))"
    by simp_all
  have "\<forall>k < length (i # xs).
         host (insts ! k) = ''localhost'' \<and> port (insts ! k) = P + int ((i # xs) ! k)
         \<and> (\<exists>cname. LocalBackend E (local_backend_args a cname (P + int ((i # xs) ! k))) =
               Inr (backend (insts ! k)))"
  proof (intro allI impI)
    fix k assume k: "k < length (i # xs)"
    show "host (insts ! k) = ''localhost'' \<and> port (insts ! k) = P + int ((i # xs) ! k)
         \<and> (\<exists>cname. LocalBackend E (local_backend_args a cname (P + int ((i # xs) ! k))) =
               Inr (backend (insts ! k)))"
    proof (cases k)
      case 0
      with x insts show ?thesis by simp
    next
      case (Suc j)
      with k have "j < length xs" by simp
      with ih Suc insts show ?thesis by simp
    qed
  qed
  with len insts show ?case by simp
qed

lemma deploy_all_ok:
  assumes "deploy_all E a hs tr = (Inr insts, tr')"
  shows "length insts = nat (replicas a)
         \<and> (\<forall>i < nat (replicas a).
               host (insts ! i) = ''localhost'' \<and> port (insts ! i) = base_port a + int i
               \<and> (\<exists>cname. LocalBackend E (local_backend_args a cname (base_port a + int i)) =
                     Inr (backend (insts ! i))))"
proof -
  obtain rs where t: "run_tasks (map (\<lambda>i. deploy_instance E a (hs ! i) (base_port a + int i) i)
      [0..<nat (replicas a)]) tr = (rs, tr')" and g: "gather rs = Inr insts"
    using assms by (auto simp: deploy_all_def split: if_splits prod.splits option.splits)
  from run_tasks_deploy [OF t g] show ?thesis by simp
qed

lemma load_multi_instance_ok:
  assumes "load_multi_instance E a tr = (Inr w, tr')"
  shows "\<exists>p. w_backend w = Pool p
         \<and> length (instances p) = nat (replicas a)
         \<and> (\<forall>i < nat (replicas a).
               host (instances p ! i) = ''localhost''
               \<and> port (instances p ! i) = base_port a + int i
               \<and> (\<exists>cname. LocalBackend E (local_backend_args a cname (base_port a + int i)) =
                     Inr (backend (instances p ! i))))"
proof -
  from assms obtain insts tr1 where
    r: "run_until_complete E (deploy_all E a (resolve_hosts a)) tr = (Inr insts, tr1)"
    and w: "w = fst (EnvironmentWrapper E (Pool (InstancePool E insts (load_balance a))) tr1)"
    by (auto simp: load_multi_instance_def deploy_failed_def
        split: option.splits prod.splits sum.splits)
  from r have d: "deploy_all E a (resolve_hosts a) tr = (Inr insts, tr1)"
    by (auto simp: run_until_complete_def split: loop_state.splits)
  have "w_backend w = Pool (InstancePool E insts (load_balance a))"
    by (simp add: w EnvironmentWrapper_def pool_is_ready_def)
  moreover have "instances (InstancePool E insts (load_balance a)) = insts"
    by (simp add: InstancePool_def)
  ultimately show ?thesis using deploy_all_ok [OF d] by auto
qed

text \<open>
  C7. After a successful load of \<open>N \<ge> 2\<close> replicas with base port \<open>P\<close>, the proxy
  wraps a pool of \<open>N\<close> instances; instance \<open>i\<close> has port \<open>P + i\<close>, its backend is the
  one that the \<open>LocalBackend\<close> constructor returned for the port \<open>P + i\<close>, and every
  instance has the host \<open>localhost\<close>.
\<close>

theorem multi_instance_ports:
  assumes "2 \<le> replicas a" and "load_env E a tr = (Inr w, tr')"
  shows "\<exists>p. w_backend w = Pool p
         \<and> length (instances p) = nat (replicas a)
         \<and> (\<forall>i < nat (replicas a).
               port (instances p ! i) = base_port a + int i
               \<and> (\<exists>args. la_http_port args = base_port a + int i
                     \<and> LocalBackend E args = Inr (backend (instances p ! i))))
         \<and> (\<forall>inst \<in> set (instances p). host inst = ''localhost'')"
proof -
  from assms have "load_multi_instance E a tr = (Inr w, tr')"
    by (auto simp: load_env_def split: if_splits option.splits)
  from load_multi_instance_ok [OF this] obtain p where
    p: "w_backend w = Pool p"
    and len: "length (instances p) = nat (replicas a)"
    and all: "\<forall>i < nat (replicas a).
               host (instances p ! i) = ''localhost''
               \<and> port (instances p ! i) = base_port a + int i
               \<and> (\<exists>cname. LocalBackend E (local_backend_args a cname (base_port a + int i)) =
                     Inr (backend (instances p ! i)))"
    by blast
  have port_arg: "\<And>cname q. la_http_port (local_backend_args a cname q) = q"
    by (simp add: local_backend_args_def)
  from all port_arg have all': "\<forall>i < nat (replicas a).
               port (instances p ! i) = base_port a + int i
               \<and> (\<exists>args. la_http_port args = base_port a + int i
                     \<and> LocalBackend E args = Inr (backend (instances p ! i)))"
    by blast
  have "\<forall>inst \<in> set (instances p). host inst = ''localhost''"
  proof
    fix inst assume "inst \<in> set (instances p)"
    then obtain i where "i < length (instances p)" and "instances p ! i = inst"
      by (auto simp: in_set_conv_nth)
    with len all show "host inst = ''localhost''" by auto
  qed
  with p len all' show ?thesis by blast
qed

theorem multi_instance_ports_witness:
  "2 \<le> replicas demo_args \<and>
   fst (load_env demo demo_args []) =
     Inr \<lparr>w_backend = Pool demo_pool, w_is_pool = True, w_name = ''pool'', w_is_ready = True\<rparr> \<and>
   port (instances demo_pool ! 0) = 8000 \<and>
   port (instances demo_pool ! 1) = 8001 \<and>
   port (instances demo_pool ! 2) = 8002 \<and>
   local_ports (snd (load_env demo demo_args [])) = [8000, 8001, 8002]"
proof -
  have lp: "local_ports (snd (load_env demo demo_args [])) = [8000, 8001, 8002]"
    by code_simp
  have r: "2 \<le> replicas demo_args" by code_simp
  have f: "fst (load_env demo demo_args []) =
     Inr \<lparr>w_backend = Pool demo_pool, w_is_pool = True, w_name = ''pool'', w_is_ready = True\<rparr>"
    by code_simp
  then have l: "load_env demo demo_args [] =
     (Inr \<lparr>w_backend = Pool demo_pool, w_is_pool = True, w_name = ''pool'', w_is_ready = True\<rparr>,
      snd (load_env demo demo_args []))"
    by (simp add: prod_eq_iff)
  have n: "nat (replicas demo_args) = 3" and b: "base_port demo_args = 8000"
    by (simp_all add: demo_args_def)
  from multi_instance_ports [OF r l] n b
  have ports: "\<forall>i<3. port (instances demo_pool ! i) = 8000 + int i"
    by auto
  from ports have "port (instances demo_pool ! 0) = 8000" "port (instances demo_pool ! 1) = 8001"
    "port (instances demo_pool ! 2) = 8002" by auto
  with r f lp show ?thesis by simp
qed

text \<open>
  C4, as the code has it. \<open>load_env\<close> raises \<open>ValidationError\<close>, with the trace as it was
  (no backend constructed), when \<open>replicas < 1\<close>; when a host list that is not empty has
  fewer entries than \<open>replicas\<close>; and, for one replica on the local host and extra
  keywords none of which is a keyword of the call of \<open>_load_single_instance\<close>, when the
  mode is neither \<open>local\<close> nor \<open>remote\<close>. With such an extra keyword (\<open>host\<close>, \<open>port\<close>)
  and one replica, the call raises \<open>TypeError\<close>, whatever the mode, with the trace as it
  was.
\<close>

theorem load_env_validation:
  "(replicas a < 1 \<longrightarrow>
      load_env E a tr = (Inl (Exn ValidationError ''replicas must be >= 1''), tr))
   \<and> (1 \<le> replicas a \<and> hosts a = Some hs \<and> hs \<noteq> [] \<and> int (length hs) < replicas a \<longrightarrow>
      load_env E a tr =
        (Inl (Exn ValidationError
           (''Not enough hosts ('' @ str_int (int (length hs))
              @ '') for replicas ('' @ str_int (replicas a) @ ''). ''
              @ ''Either provide enough hosts or set hosts=None for local deployment.'')), tr))
   \<and> (replicas a = 1 \<and> (host_list a = [] \<or> hd (host_list a) = ''localhost'')
        \<and> duplicate_keyword load_single_instance_keywords (backend_kwargs a) = None
        \<and> mode a \<noteq> ''local'' \<and> mode a \<noteq> ''remote'' \<longrightarrow>
      load_env E a tr =
        (Inl (Exn ValidationError
           (''Invalid mode: '' @ mode a @ ''. Must be '' @ quoted ''local'' @ '' or ''
              @ quoted ''remote'')), tr))
   \<and> (replicas a = 1
        \<and> duplicate_keyword load_single_instance_keywords (backend_kwargs a) = Some k \<longrightarrow>
      load_env E a tr =
        (Inl (Exn TypeError (multiple_values_message E ''_load_single_instance'' k)), tr))"
proof (intro conjI impI)
  assume "replicas a < 1"
  then show "load_env E a tr = (Inl (Exn ValidationError ''replicas must be >= 1''), tr)"
    by (simp add: load_env_def)
next
  assume h: "1 \<le> replicas a \<and> hosts a = Some hs \<and> hs \<noteq> [] \<and> int (length hs) < replicas a"
  then have "host_list a = hs" by (simp add: host_list_def)
  with h show "load_env E a tr =
        (Inl (Exn ValidationError
           (''Not enough hosts ('' @ str_int (int (length hs))
              @ '') for replicas ('' @ str_int (replicas a) @ ''). ''
              @ ''Either provide enough hosts or set hosts=None for local deployment.'')), tr)"
    by (simp add: load_env_def)
next
  assume h: "replicas a = 1 \<and> (host_list a = [] \<or> hd (host_list a) = ''localhost'')
        \<and> duplicate_keyword load_single_instance_keywords (backend_kwargs a) = None
        \<and> mode a \<noteq> ''local'' \<and> mode a \<noteq> ''remote''"
  then have "\<not> (host_list a \<noteq> [] \<and> int (length (host_list a)) < replicas a)"
    by (cases "host_list a") auto
  with h show "load_env E a tr =
        (Inl (Exn ValidationError
           (''Invalid mode: '' @ mode a @ ''. Must be '' @ quoted ''local'' @ '' or ''
              @ quoted ''remote'')), tr)"
    by (auto simp: load_env_def load_single_instance_def keyword_error_def)
next
  assume h: "replicas a = 1
        \<and> duplicate_keyword load_single_instance_keywords (backend_kwargs a) = Some k"
  then have "\<not> (host_list a \<noteq> [] \<and> int (length (host_list a)) < replicas a)"
    by (cases "host_list a") auto
  with h show "load_env E a tr =
        (Inl (Exn TypeError (multiple_values_message E ''_load_single_instance'' k)), tr)"
    by (auto simp: load_env_def keyword_error_def)
qed

theorem load_env_validation_witness:
  "replicas (demo_args\<lparr>replicas := 0\<rparr>) < 1 \<and>
   load_env demo (demo_args\<lparr>replicas := 0\<rparr>) [] =
     (Inl (Exn ValidationError ''replicas must be >= 1''), []) \<and>
   hosts (demo_args\<lparr>replicas := 2, hosts := Some [''localhost'']\<rparr>) = Some [''localhost''] \<and>
   load_env demo (demo_args\<lparr>replicas := 2, hosts := Some [''localhost'']\<rparr>) [] =
     (Inl (Exn ValidationError
        (''Not enough hosts (1) for replicas (2). ''
           @ ''Either provide enough hosts or set hosts=None for local deployment.'')), []) \<and>
   mode (demo_args\<lparr>replicas := 1, mode := ''bogus''\<rparr>) = ''bogus'' \<and>
   load_env demo (demo_args\<lparr>replicas := 1, mode := ''bogus''\<rparr>) [] =
     (Inl (Exn ValidationError
        (''Invalid mode: bogus. Must be '' @ quoted ''local'' @ '' or '' @ quoted ''remote'')), []) \<and>
   duplicate_keyword load_single_instance_keywords
     (backend_kwargs (demo_args\<lparr>replicas := 1, backend_kwargs := [(''port'', PInt 5)]\<rparr>)) =
     Some ''port'' \<and>
   load_env demo (demo_args\<lparr>replicas := 1, backend_kwargs := [(''port'', PInt 5)]\<rparr>) [] =
     (Inl (Exn TypeError
        (''_load_single_instance() got multiple values for keyword argument '' @ quoted ''port'')),
      [])"
proof -
  have a4: "replicas (demo_args\<lparr>replicas := 1, backend_kwargs := [(''port'', PInt 5)]\<rparr>) = 1 \<and>
     duplicate_keyword load_single_instance_keywords
       (backend_kwargs (demo_args\<lparr>replicas := 1, backend_kwargs := [(''port'', PInt 5)]\<rparr>)) =
       Some ''port''"
    by code_simp
  have s4: "multiple_values_message demo ''_load_single_instance'' ''port'' =
     ''_load_single_instance() got multiple values for keyword argument '' @ quoted ''port''"
    by code_simp
  from load_env_validation [of "demo_args\<lparr>replicas := 1, backend_kwargs := [(''port'', PInt 5)]\<rparr>"
      demo "[]" _ "''port''"] a4
  have c4: "load_env demo (demo_args\<lparr>replicas := 1, backend_kwargs := [(''port'', PInt 5)]\<rparr>) [] =
     (Inl (Exn TypeError (multiple_values_message demo ''_load_single_instance'' ''port'')), [])"
    by blast
  have a1: "replicas (demo_args\<lparr>replicas := 0\<rparr>) < 1" by code_simp
  have a2: "1 \<le> replicas (demo_args\<lparr>replicas := 2, hosts := Some [''localhost'']\<rparr>) \<and>
     hosts (demo_args\<lparr>replicas := 2, hosts := Some [''localhost'']\<rparr>) = Some [''localhost''] \<and>
     [''localhost''] \<noteq> [] \<and>
     int (length [''localhost'']) < replicas (demo_args\<lparr>replicas := 2, hosts := Some [''localhost'']\<rparr>)"
    by code_simp
  have a3: "replicas (demo_args\<lparr>replicas := 1, mode := ''bogus''\<rparr>) = 1 \<and>
     (host_list (demo_args\<lparr>replicas := 1, mode := ''bogus''\<rparr>) = [] \<or>
      hd (host_list (demo_args\<lparr>replicas := 1, mode := ''bogus''\<rparr>)) = ''localhost'') \<and>
     duplicate_keyword load_single_instance_keywords
       (backend_kwargs (demo_args\<lparr>replicas := 1, mode := ''bogus''\<rparr>)) = None \<and>
     mode (demo_args\<lparr>replicas := 1, mode := ''bogus''\<rparr>) \<noteq> ''local'' \<and>
     mode (demo_args\<lparr>replicas := 1, mode := ''bogus''\<rparr>) \<noteq> ''remote''"
    by code_simp
  have s: "str_int (int (length [''localhost''])) = ''1''"
    "str_int (replicas (demo_args\<lparr>replicas := 2, hosts := Some [''localhost'']\<rparr>)) = ''2''"
    "mode (demo_args\<lparr>replicas := 1, mode := ''bogus''\<rparr>) = ''bogus''"
    by code_simp+
  from load_env_validation [of "demo_args\<lparr>replicas := 0\<rparr>" demo "[]"] a1
  have c1: "load_env demo (demo_args\<lparr>replicas := 0\<rparr>) [] =
     (Inl (Exn ValidationError ''replicas must be >= 1''), [])" by blast
  from load_env_validation [of "demo_args\<lparr>replicas := 2, hosts := Some [''localhost'']\<rparr>"
      demo "[]" "[''localhost'']"] a2
  have c2: "load_env demo (demo_args\<lparr>replicas := 2, hosts := Some [''localhost'']\<rparr>) [] =
        (Inl (Exn ValidationError
           (''Not enough hosts ('' @ str_int (int (length [''localhost'']))
              @ '') for replicas (''
              @ str_int (replicas (demo_args\<lparr>replicas := 2, hosts := Some [''localhost'']\<rparr>))
              @ ''). ''
              @ ''Either provide enough hosts or set hosts=None for local deployment.'')), [])"
    by blast
  from load_env_validation [of "demo_args\<lparr>replicas := 1, mode := ''bogus''\<rparr>" demo "[]"] a3
  have c3: "load_env demo (demo_args\<lparr>replicas := 1, mode := ''bogus''\<rparr>) [] =
        (Inl (Exn ValidationError
           (''Invalid mode: '' @ mode (demo_args\<lparr>replicas := 1, mode := ''bogus''\<rparr>)
              @ ''. Must be '' @ quoted ''local'' @ '' or '' @ quoted ''remote'')), [])"
    by blast
  from a1 a2 a4 c1 c2 c3 c4 show ?thesis unfolding s s4 by simp
qed

text \<open>
  C4 as stated fails by the order and the form of the checks. An empty host list counts
  as no host list: with two replicas the load goes on and constructs two backends. With
  a remote host the single-instance path raises \<open>NotImplementedError\<close> before it looks
  at the mode. And with an extra keyword \<open>port\<close> the call of \<open>_load_single_instance\<close>
  raises \<open>TypeError\<close> before the mode is looked at.
\<close>

theorem load_env_validation_counterexample:
  "hosts (demo_args\<lparr>replicas := 2, hosts := Some []\<rparr>) = Some [] \<and>
   \<not> isl (fst (load_env demo (demo_args\<lparr>replicas := 2, hosts := Some []\<rparr>) [])) \<and>
   local_ports (snd (load_env demo (demo_args\<lparr>replicas := 2, hosts := Some []\<rparr>) [])) =
     [8000, 8001] \<and>
   load_env demo (demo_args\<lparr>replicas := 1, hosts := Some [''10.0.0.5''], mode := ''bogus''\<rparr>) [] =
     (Inl (Exn NotImplementedError
        (''Remote SSH deployment not yet implemented. Use hosts=['' @ quoted ''localhost''
           @ ''] or hosts=None for local deployment.'')), []) \<and>
   load_env demo
     (demo_args\<lparr>replicas := 1, mode := ''bogus'', backend_kwargs := [(''port'', PInt 5)]\<rparr>) [] =
     (Inl (Exn TypeError
        (''_load_single_instance() got multiple values for keyword argument '' @ quoted ''port'')),
      [])"
  by code_simp

text \<open>
  C1 fails on the code. With two replicas on the ports 9000 and 9001, the first backend
  is constructed and the second construction raises. \<open>load_env\<close> raises the
  \<open>BackendError\<close>, and the trace ends with the two constructor calls: no \<open>cleanup\<close> was
  invoked on the backend of port 9000.
\<close>

theorem partial_deployment_not_cleaned_up:
  "LocalBackend demo
     (local_backend_args (demo_args\<lparr>replicas := 2, base_port := 9000\<rparr>) (Some ''x-0'') 9000) = Inr 0 \<and>
   load_env demo (demo_args\<lparr>replicas := 2, base_port := 9000\<rparr>) [] =
     (Inl (Exn BackendError ''Multi-instance deployment failed: port is already allocated''),
      [EvLocalBackend
         (local_backend_args (demo_args\<lparr>replicas := 2, base_port := 9000\<rparr>) (Some ''x-0'') 9000),
       EvLocalBackend
         (local_backend_args (demo_args\<lparr>replicas := 2, base_port := 9000\<rparr>) (Some ''x-1'') 9001)])"
  by code_simp

section \<open>Properties of the singleton pool\<close>

lemma correspondsD:
  assumes "corresponds ws wp"
  obtains b p inst where "w_backend ws = Backend b" "w_backend wp = Pool p"
    "instances p = [inst]" "healthy inst" "backend inst = b" "w_is_ready ws = w_is_ready wp"
    "p_ready p = w_is_ready wp"
  using assms
  by (auto simp: corresponds_def singleton_backend_def pool_flag_def
      split: backend_obj.splits list.splits if_splits)

lemma selectable_singleton:
  "instances p = [inst] \<Longrightarrow> healthy inst \<Longrightarrow>
   selectable E p = (if is_ready_of E (backend inst) then [0] else [])"
  by (simp add: selectable_def)

lemma pool_call_method_singleton:
  assumes "instances p = [inst]" "healthy inst" "is_ready_of E (backend inst)"
  shows "fst (pool_call_method E p name args timeout kwargs tr) =
           fst (call_method_of E (backend inst) name args timeout kwargs)
         \<and> instances (fst (snd (pool_call_method E p name args timeout kwargs tr))) =
           [inst\<lparr>backend := snd (call_method_of E (backend inst) name args timeout kwargs)\<rparr>]
         \<and> p_ready (fst (snd (pool_call_method E p name args timeout kwargs tr))) = p_ready p"
  using assms
  by (simp add: pool_call_method_def selectable_singleton Let_def backend_call_method_def
      split: prod.splits)

lemma pool_call_method_not_ready:
  assumes "instances p = [inst]" "healthy inst" "\<not> is_ready_of E (backend inst)"
  shows "fst (pool_call_method E p name args timeout kwargs tr) =
           Inl (Exn BackendError ''no healthy instances'')"
  using assms by (simp add: pool_call_method_def selectable_singleton Let_def)

lemma pool_cleanup_singleton:
  assumes "instances p = [inst]"
  shows "fst (pool_cleanup E p tr) = None
         \<and> instances (fst (snd (pool_cleanup E p tr))) =
           [inst\<lparr>backend := snd (cleanup_of E (backend inst))\<rparr>]
         \<and> \<not> p_ready (fst (snd (pool_cleanup E p tr)))"
  using assms
  by (simp add: pool_cleanup_def backend_cleanup_def split: prod.splits)

lemma corresponds_is_ready:
  assumes "corresponds ws wp" and "w_backend ws = Backend b"
    and "is_ready_of E b \<or> \<not> w_is_ready ws"
  shows "fst (is_ready E ws tr) = fst (is_ready E wp tr')"
proof -
  from assms(1,2) obtain p where h: "w_backend wp = Pool p"
    "w_is_ready ws = w_is_ready wp" "p_ready p = w_is_ready wp"
    by (auto elim!: correspondsD)
  with assms(2,3) show ?thesis
    by (auto simp: is_ready_def backend_is_ready_def pool_is_ready_def)
qed

lemma corresponds_cleanup:
  assumes "corresponds ws wp" and "w_backend ws = Backend b"
  shows "w_backend (fst (snd (cleanup E ws tr))) = Backend (snd (cleanup_of E b))"
    and "singleton_backend (w_backend (fst (snd (cleanup E wp tr')))) = Some (snd (cleanup_of E b))"
    and "fst (cleanup_of E b) = None \<Longrightarrow>
         corresponds (fst (snd (cleanup E ws tr))) (fst (snd (cleanup E wp tr')))"
proof -
  from assms obtain p inst where h: "w_backend wp = Pool p"
    "instances p = [inst]" "healthy inst" "backend inst = b" "w_is_ready ws = w_is_ready wp"
    by (auto elim!: correspondsD)
  obtain r b' where c: "cleanup_of E b = (r, b')" by (cases "cleanup_of E b")
  obtain p' trp where pc: "pool_cleanup E p tr' = (None, p', trp)"
    and p': "instances p' = [inst\<lparr>backend := b'\<rparr>]" and f': "\<not> p_ready p'"
    using pool_cleanup_singleton [OF h(2), of E tr'] h(4) c
    by (cases "pool_cleanup E p tr'") auto
  show s: "w_backend (fst (snd (cleanup E ws tr))) = Backend (snd (cleanup_of E b))"
    using assms(2) c by (simp add: cleanup_def backend_cleanup_def split: option.splits)
  show q: "singleton_backend (w_backend (fst (snd (cleanup E wp tr')))) = Some (snd (cleanup_of E b))"
    using h pc p' c by (simp add: cleanup_def singleton_backend_def)
  assume "fst (cleanup_of E b) = None"
  with c have "r = None" by simp
  with assms(2) c have "\<not> w_is_ready (fst (snd (cleanup E ws tr)))"
    by (simp add: cleanup_def backend_cleanup_def)
  moreover from h pc have "\<not> w_is_ready (fst (snd (cleanup E wp tr')))"
    and "w_backend (fst (snd (cleanup E wp tr'))) = Pool p'"
    by (simp_all add: cleanup_def)
  ultimately show "corresponds (fst (snd (cleanup E ws tr))) (fst (snd (cleanup E wp tr')))"
    using s q f' by (simp add: corresponds_def pool_flag_def)
qed

lemma corresponds_forward:
  assumes "corresponds ws wp" and "w_backend ws = Backend b" and "is_ready_of E b"
  shows "map_sum kind id (fst (forward E ws name args kws tr)) =
         map_sum kind id (fst (forward E wp name args kws tr'))"
    and "corresponds (fst (snd (forward E ws name args kws tr)))
           (fst (snd (forward E wp name args kws tr')))"
proof -
  from assms obtain p inst where h: "w_backend wp = Pool p"
    "instances p = [inst]" "healthy inst" "backend inst = b" "w_is_ready ws = w_is_ready wp"
    "p_ready p = w_is_ready wp"
    by (auto elim!: correspondsD)
  obtain r b' where c: "call_method_of E b name args (timeout_of kws) (business_kwargs kws) = (r, b')"
    by (cases "call_method_of E b name args (timeout_of kws) (business_kwargs kws)")
  obtain rp p' trp where pc:
    "pool_call_method E p name args (timeout_of kws) (business_kwargs kws) tr' = (rp, p', trp)"
    by (cases "pool_call_method E p name args (timeout_of kws) (business_kwargs kws) tr'")
  from pool_call_method_singleton [OF h(2,3), of E name args "timeout_of kws" "business_kwargs kws" tr']
    assms(3) h(4) c pc
  have rp: "rp = r" and p': "instances p' = [inst\<lparr>backend := b'\<rparr>]"
    and f': "p_ready p' = p_ready p" by simp_all
  show "map_sum kind id (fst (forward E ws name args kws tr)) =
        map_sum kind id (fst (forward E wp name args kws tr'))"
    using assms(2) h c pc rp
    by (cases r)
      (simp_all add: forward_def getattr_def method_caller_def backend_call_method_def)
  show "corresponds (fst (snd (forward E ws name args kws tr)))
          (fst (snd (forward E wp name args kws tr')))"
    using assms(1,2) h c pc rp p' f'
    by (cases r)
      (simp_all add: forward_def getattr_def method_caller_def backend_call_method_def
        corresponds_def singleton_backend_def pool_flag_def)
qed

lemma corresponds_forward_not_ready:
  assumes "corresponds ws wp" and "w_backend ws = Backend b" and "\<not> is_ready_of E b"
    and "w_is_ready ws" and "\<not> startswith_underscore name"
  shows "fst (forward E wp name args kws tr') =
           Inl (Exn EnvironmentError
             (''Method '' @ quoted name @ '' failed on environment '' @ quoted (w_name wp)
                @ '': no healthy instances''))"
    and "fst (is_ready E ws tr) = False" and "fst (is_ready E wp tr') = True"
proof -
  from assms(1,2) obtain p inst where h: "w_backend wp = Pool p"
    "instances p = [inst]" "healthy inst" "backend inst = b" "w_is_ready ws = w_is_ready wp"
    "p_ready p = w_is_ready wp"
    by (auto elim!: correspondsD)
  from pool_call_method_not_ready [OF h(2,3), of E name args "timeout_of kws" "business_kwargs kws" tr']
    assms(3) h(4)
  have "fst (obj_call_method E (w_backend wp) name args (timeout_of kws) (business_kwargs kws) tr') =
          Inl (Exn BackendError ''no healthy instances'')"
    by (auto simp: h(1) split: prod.splits)
  from forward_ready_failure [OF _ assms(5) this] assms(4) h(5)
  show "fst (forward E wp name args kws tr') =
           Inl (Exn EnvironmentError
             (''Method '' @ quoted name @ '' failed on environment '' @ quoted (w_name wp)
                @ '': no healthy instances''))" by simp
  show "fst (is_ready E ws tr) = False"
    using assms(2,3) by (simp add: is_ready_def backend_is_ready_def)
  show "fst (is_ready E wp tr') = True"
    using assms(4) h by (simp add: is_ready_def pool_is_ready_def)
qed

lemma corresponds_fresh:
  "is_ready_of E b \<Longrightarrow>
   corresponds (fst (EnvironmentWrapper E (Backend b) tr))
     (fst (EnvironmentWrapper E
        (Pool (InstancePool E [\<lparr>host = h, port = q, backend = b, healthy = True\<rparr>] lb)) tr'))"
  by (simp add: corresponds_def singleton_backend_def pool_flag_def EnvironmentWrapper_def
      InstancePool_def backend_is_ready_def pool_is_ready_def)

lemma load_env_single:
  assumes "replicas a = 1" and "load_env E a tr = (Inr w, tr')"
  shows "\<exists>b tr0. w = fst (EnvironmentWrapper E (Backend b) tr0)"
proof -
  from assms obtain b tr0 where "wrap_single E b tr0 = (Inr w, tr')"
    by (auto simp: load_env_def load_single_instance_def Let_def
        split: if_splits sum.splits option.splits)
  then have "w = fst (EnvironmentWrapper E (Backend b) tr0)"
    by (auto simp: wrap_single_def split: prod.splits)
  then show ?thesis by blast
qed

text \<open>
  C8, as the code and the pool of the specification have it. The proxy of \<open>load_env\<close> with
  one replica wraps a backend, and that proxy and the proxy around a new pool of one
  instance of the same backend are in corresponding states when the backend reports
  ready. For two proxies in corresponding states: \<open>is_ready()\<close> gives the same answer
  when the backend reports ready or the proxies are not ready; \<open>cleanup()\<close> returns
  normally in both, leaves the same backend state, and the two proxies correspond again
  when the backend's cleanup did not raise; and when the backend reports ready, a
  forwarded call gives the same value, or an exception of the same class, and the proxies
  correspond again. When the backend reports not ready and the proxies are ready,
  \<open>is_ready()\<close> is false for the proxy of the backend and true for the proxy of the pool,
  whose readiness is its own flag, and the forward request on the proxy of the pool fails
  with \<open>EnvironmentError\<close>, as the pool has no instance to select.
\<close>

theorem singleton_pool_equivalence:
  assumes "corresponds ws wp" and "w_backend ws = Backend b"
  shows "(is_ready_of E b \<or> \<not> w_is_ready ws \<longrightarrow>
            fst (is_ready E ws tr) = fst (is_ready E wp tr'))
         \<and> fst (cleanup E ws tr) = Inr () \<and> fst (cleanup E wp tr') = Inr ()
         \<and> w_backend (fst (snd (cleanup E ws tr))) = Backend (snd (cleanup_of E b))
         \<and> singleton_backend (w_backend (fst (snd (cleanup E wp tr')))) = Some (snd (cleanup_of E b))
         \<and> (fst (cleanup_of E b) = None \<longrightarrow>
              corresponds (fst (snd (cleanup E ws tr))) (fst (snd (cleanup E wp tr'))))
         \<and> (is_ready_of E b \<longrightarrow>
              map_sum kind id (fst (forward E ws name args kws tr)) =
                map_sum kind id (fst (forward E wp name args kws tr'))
              \<and> corresponds (fst (snd (forward E ws name args kws tr)))
                  (fst (snd (forward E wp name args kws tr'))))
         \<and> (\<not> is_ready_of E b \<and> w_is_ready ws \<and> \<not> startswith_underscore name \<longrightarrow>
              fst (forward E wp name args kws tr') =
                Inl (Exn EnvironmentError
                  (''Method '' @ quoted name @ '' failed on environment '' @ quoted (w_name wp)
                     @ '': no healthy instances''))
              \<and> fst (is_ready E ws tr) = False \<and> fst (is_ready E wp tr') = True)
         \<and> (is_ready_of E b0 \<longrightarrow>
              corresponds (fst (EnvironmentWrapper E (Backend b0) tr))
                (fst (EnvironmentWrapper E
                   (Pool (InstancePool E [\<lparr>host = h, port = q, backend = b0, healthy = True\<rparr>] lb))
                   tr')))
         \<and> (replicas a = 1 \<and> load_env E a tr = (Inr w, tr') \<longrightarrow>
              (\<exists>b1 tr1. w = fst (EnvironmentWrapper E (Backend b1) tr1)))"
  using corresponds_is_ready [OF assms, of E tr tr']
    corresponds_cleanup(1) [OF assms, of E tr]
    corresponds_cleanup(2) [OF assms, of E tr']
    corresponds_cleanup(3) [OF assms, of E tr tr']
    corresponds_forward [OF assms, of E name args kws tr tr']
    corresponds_forward_not_ready(1) [OF assms, of E name args kws tr']
    corresponds_forward_not_ready(2) [OF assms, of E name tr]
    corresponds_forward_not_ready(3) [OF assms, of E name tr']
    corresponds_fresh [where E = E and b = b0 and tr = tr and h = h and q = q and lb = lb
      and tr' = tr']
    load_env_single [of a E tr w tr']
    cleanup_returns [of E ws tr] cleanup_returns [of E wp tr']
  by blast

theorem singleton_pool_equivalence_witness:
  "corresponds fresh_wrapper singleton_pool_wrapper \<and> w_backend fresh_wrapper = Backend 0 \<and>
   is_ready_of demo 0 \<and> fst (cleanup_of demo 0) = None \<and>
   fst (is_ready demo fresh_wrapper []) = fst (is_ready demo singleton_pool_wrapper []) \<and>
   fst (cleanup demo fresh_wrapper []) = fst (cleanup demo singleton_pool_wrapper []) \<and>
   corresponds (fst (snd (cleanup demo fresh_wrapper [])))
     (fst (snd (cleanup demo singleton_pool_wrapper []))) \<and>
   map_sum kind id (fst (forward demo fresh_wrapper ''evaluate'' [] [] [])) =
     map_sum kind id (fst (forward demo singleton_pool_wrapper ''evaluate'' [] [] [])) \<and>
   replicas (demo_args\<lparr>replicas := 1\<rparr>) = 1 \<and>
   fst (load_env demo (demo_args\<lparr>replicas := 1\<rparr>) []) = Inr fresh_wrapper \<and>
   (\<exists>b1 tr1. fresh_wrapper = fst (EnvironmentWrapper demo (Backend b1) tr1)) \<and>
   corresponds stale_wrapper stale_pool_wrapper \<and> w_backend stale_wrapper = Backend 1 \<and>
   \<not> is_ready_of demo 1 \<and> w_is_ready stale_wrapper \<and> \<not> startswith_underscore ''evaluate'' \<and>
   fst (is_ready demo stale_wrapper []) = False \<and>
   fst (is_ready demo stale_pool_wrapper []) = True"
proof -
  have c: "corresponds fresh_wrapper singleton_pool_wrapper" by code_simp
  have b: "w_backend fresh_wrapper = Backend 0" by code_simp
  have r: "is_ready_of demo 0" by code_simp
  have n: "fst (cleanup_of demo 0) = None" by code_simp
  have a: "replicas (demo_args\<lparr>replicas := 1\<rparr>) = 1" by code_simp
  have f: "fst (load_env demo (demo_args\<lparr>replicas := 1\<rparr>) []) = Inr fresh_wrapper"
    by code_simp
  then have l: "load_env demo (demo_args\<lparr>replicas := 1\<rparr>) [] =
      (Inr fresh_wrapper, snd (load_env demo (demo_args\<lparr>replicas := 1\<rparr>) []))"
    by (simp add: prod_eq_iff)
  from singleton_pool_equivalence [OF c b, where E = demo and tr = "[]"
      and tr' = "snd (load_env demo (demo_args\<lparr>replicas := 1\<rparr>) [])"
      and a = "demo_args\<lparr>replicas := 1\<rparr>" and w = fresh_wrapper] a l
  have e: "\<exists>b1 tr1. fresh_wrapper = fst (EnvironmentWrapper demo (Backend b1) tr1)"
    by blast
  from singleton_pool_equivalence [OF c b, of demo "[]" "[]" "''evaluate''" "[]" "[]"] r n
  have 1: "fst (is_ready demo fresh_wrapper []) = fst (is_ready demo singleton_pool_wrapper []) \<and>
   fst (cleanup demo fresh_wrapper []) = fst (cleanup demo singleton_pool_wrapper []) \<and>
   corresponds (fst (snd (cleanup demo fresh_wrapper [])))
     (fst (snd (cleanup demo singleton_pool_wrapper []))) \<and>
   map_sum kind id (fst (forward demo fresh_wrapper ''evaluate'' [] [] [])) =
     map_sum kind id (fst (forward demo singleton_pool_wrapper ''evaluate'' [] [] []))"
    by simp
  have c2: "corresponds stale_wrapper stale_pool_wrapper" by code_simp
  have b2: "w_backend stale_wrapper = Backend 1" by code_simp
  have r2: "\<not> is_ready_of demo 1" "w_is_ready stale_wrapper"
    "\<not> startswith_underscore ''evaluate''" by code_simp+
  from singleton_pool_equivalence [OF c2 b2, of demo "[]" "[]" "''evaluate''" "[]" "[]"] r2
  have 2: "fst (is_ready demo stale_wrapper []) = False \<and>
     fst (is_ready demo stale_pool_wrapper []) = True"
    by blast
  have chk: "fst (forward demo fresh_wrapper ''evaluate'' [] [] []) = Inr (PInt 0)"
    "fst (forward demo singleton_pool_wrapper ''evaluate'' [] [] []) = Inr (PInt 0)"
    "fst (is_ready demo fresh_wrapper []) = True"
    "fst (is_ready demo singleton_pool_wrapper []) = True"
    "fst (cleanup demo singleton_pool_wrapper []) = Inr ()"
    by code_simp+
  from c b r n a f e 1 c2 b2 r2 2 show ?thesis by blast
qed

text \<open>
  C8 as stated fails on a backend that stops reporting ready: after one forwarded call,
  which both proxies answer alike, the proxy around the bare backend forwards the next
  call and returns its value, and the proxy around the pool fails, as the pool selects
  no instance whose backend is not ready; and \<open>is_ready()\<close> is then false for the first
  and true for the second.
\<close>

theorem singleton_pool_forward_counterexample:
  "fst (EnvironmentWrapper demo (Backend 0) []) = fresh_wrapper \<and>
   fst (EnvironmentWrapper demo
     (Pool (InstancePool demo [\<lparr>host = ''localhost'', port = 8000, backend = 0, healthy = True\<rparr>]
        ''random'')) []) = singleton_pool_wrapper \<and>
   fst (forward demo fresh_wrapper ''evaluate'' [] [] []) = Inr (PInt 0) \<and>
   fst (snd (forward demo fresh_wrapper ''evaluate'' [] [] [])) = stale_wrapper \<and>
   fst (forward demo singleton_pool_wrapper ''evaluate'' [] [] []) = Inr (PInt 0) \<and>
   fst (snd (forward demo singleton_pool_wrapper ''evaluate'' [] [] [])) = stale_pool_wrapper \<and>
   fst (forward demo stale_wrapper ''evaluate'' [] [] []) = Inr (PInt 1) \<and>
   fst (forward demo stale_pool_wrapper ''evaluate'' [] [] []) =
     Inl (Exn EnvironmentError
       (''Method '' @ quoted ''evaluate'' @ '' failed on environment '' @ quoted ''pool''
          @ '': no healthy instances'')) \<and>
   fst (is_ready demo stale_wrapper []) = False \<and>
   fst (is_ready demo stale_pool_wrapper []) = True"
  by code_simp

end
